theory Spec2Isabelle
  imports Complex_Main
begin

section \<open>Python values shared by the two pipelines\<close>

text \<open>
  Decoded JSON as Python holds it after \<open>json.load\<close> or \<open>response.json()\<close>:
  \<open>None\<close>, booleans, integers, strings, lists, and dicts. A dict is an association
  list in insertion order. JSON numbers are the integers of the history API (ids, counts,
  item numbers); the rubric score, the one float of the program, is a \<open>real\<close> in
  \<open>EvalResult\<close> below. A string is a list of characters, one per code point.
\<close>

datatype json =
    JNull
  | JBool bool
  | JInt int
  | JStr string
  | JArr "json list"
  | JObj "(string \<times> json) list"

text \<open>
  An exception is its class and the message \<open>str(e)\<close> gives. Every function that can
  raise returns \<open>py_exception + 'a\<close>, with \<open>Inl\<close> for the raise.
\<close>

datatype py_exception =
    OSError string
  | JSONDecodeError string
  | TypeError string
  | AttributeError string
  | KeyError string
  | ValueError string
  | OverflowError string
  | RequestException string
  | GenerationError string

fun exc_str :: "py_exception \<Rightarrow> string" where
  "exc_str (OSError m) = m"
| "exc_str (JSONDecodeError m) = m"
| "exc_str (TypeError m) = m"
| "exc_str (AttributeError m) = m"
| "exc_str (KeyError m) = m"
| "exc_str (ValueError m) = m"
| "exc_str (OverflowError m) = m"
| "exc_str (RequestException m) = m"
| "exc_str (GenerationError m) = m"

section \<open>models.py\<close>

record EvalResult =
  score :: real
  details :: "(string \<times> json) list"

record Run =
  task_id :: string
  task :: string
  env_path :: string
  agent_answer_path :: "string option"
  source_answer_path :: "string option"

text \<open>
  \<open>eval_function\<close> wraps \<open>func\<close> in a function that calls it with the same run and
  returns what it returns; an exception of \<open>func\<close> passes through the wrapper.
\<close>

definition eval_function ::
  "(Run \<Rightarrow> py_exception + EvalResult) \<Rightarrow> (Run \<Rightarrow> py_exception + EvalResult)" where
  "eval_function func = (\<lambda>r. func r)"

section \<open>eval.py\<close>

record EvaluationResult =
  pattern_recognition :: int
  pattern_recognition_justification :: string
  specific_evidence :: int
  specific_evidence_justification :: string
  root_cause_analysis :: int
  root_cause_analysis_justification :: string
  actionable_insights :: int
  actionable_insights_justification :: string
  total_score :: int
  overall_assessment :: string

text \<open>
  The file system as the evaluator sees it: a path names nothing, a file whose
  \<open>read_text\<close> returns its content, or an entry that exists and whose \<open>read_text\<close>
  raises (a directory, a file without read permission, bytes that do not decode).
  Paths are kept as text; \<open>path_join\<close> is the \<open>/\<close> of pathlib: an absolute right
  operand replaces the left one, an empty operand leaves the other one, and one slash
  separates the two. Which texts name the same file (a leading \<open>./\<close>, repeated
  slashes) is up to the file system.
\<close>

datatype file_entry = Absent | Readable string | Unreadable py_exception

type_synonym filesystem = "string \<Rightarrow> file_entry"

definition path_exists :: "filesystem \<Rightarrow> string \<Rightarrow> bool" where
  "path_exists fs p = (fs p \<noteq> Absent)"

definition read_text :: "filesystem \<Rightarrow> string \<Rightarrow> py_exception + string" where
  "read_text fs p =
     (case fs p of
        Absent \<Rightarrow> Inl (OSError (''No such file or directory: '' @ p))
      | Readable s \<Rightarrow> Inr s
      | Unreadable e \<Rightarrow> Inl e)"

definition path_join :: "string \<Rightarrow> string \<Rightarrow> string" where
  "path_join base seg =
     (case seg of
        [] \<Rightarrow> base
      | c # cs \<Rightarrow>
          if c = CHR ''/'' then seg
          else if base = [] then seg
          else if last base = CHR ''/'' then base @ seg
          else base @ ''/'' @ seg)"

text \<open>\<open>eval_dir\<close> is \<open>Path(__file__).parent\<close>.\<close>

definition get_source_answer :: "filesystem \<Rightarrow> string \<Rightarrow> string \<Rightarrow> py_exception + string" where
  "get_source_answer fs eval_dir tid =
     (let source_file =
            path_join (path_join (path_join eval_dir ''dataset_from_dspy'') ''source_answers'')
              (tid @ ''.md'')
      in if \<not> path_exists fs source_file
         then Inr (''No source answer found for task '' @ tid)
         else read_text fs source_file)"

definition output_files :: "string list" where
  "output_files =
     [''answer.txt'', ''analysis.md'', ''response.txt'', ''output.txt'',
      ''result.md'', ''solution.txt'', ''findings.txt'', ''agent_output.txt'']"

fun first_output_file :: "filesystem \<Rightarrow> string \<Rightarrow> string list \<Rightarrow> py_exception + string" where
  "first_output_file fs env [] =
     Inr ''No agent answer file found. Agent may have provided answer in terminal output only.''"
| "first_output_file fs env (filename # rest) =
     (let file_path = path_join env filename
      in if path_exists fs file_path then read_text fs file_path
         else first_output_file fs env rest)"

text \<open>
  \<open>run.agent_answer_path and Path(...).exists()\<close>: \<open>None\<close> and the empty string are
  both false.
\<close>

definition get_agent_answer :: "filesystem \<Rightarrow> Run \<Rightarrow> py_exception + string" where
  "get_agent_answer fs run =
     (case agent_answer_path run of
        Some p \<Rightarrow>
          if p \<noteq> [] \<and> path_exists fs p then read_text fs p
          else first_output_file fs (env_path run) output_files
      | None \<Rightarrow> first_output_file fs (env_path run) output_files)"

text \<open>
  The rubric-scoring capability (\<open>dspy.ChainOfThought(EvaluateGitQA)\<close>) is a parameter:
  given the task id, the source answer and the agent answer it raises or returns an
  \<open>EvaluationResult\<close>. The pydantic model declares the five scores as plain \<open>int\<close>
  fields; their ranges appear only in the field descriptions, so every record of that
  type is a possible output.
\<close>

type_synonym evaluator = "string \<Rightarrow> string \<Rightarrow> string \<Rightarrow> py_exception + EvaluationResult"

definition success_details :: "EvaluationResult \<Rightarrow> string \<Rightarrow> string \<Rightarrow> string \<Rightarrow> (string \<times> json) list" where
  "success_details er source_answer agent_answer tid =
     [(''pattern_recognition'', JInt (pattern_recognition er)),
      (''pattern_recognition_justification'', JStr (pattern_recognition_justification er)),
      (''specific_evidence'', JInt (specific_evidence er)),
      (''specific_evidence_justification'', JStr (specific_evidence_justification er)),
      (''root_cause_analysis'', JInt (root_cause_analysis er)),
      (''root_cause_analysis_justification'', JStr (root_cause_analysis_justification er)),
      (''actionable_insights'', JInt (actionable_insights er)),
      (''actionable_insights_justification'', JStr (actionable_insights_justification er)),
      (''total_score'', JInt (total_score er)),
      (''overall_assessment'', JStr (overall_assessment er)),
      (''source_answer_length'', JInt (int (length source_answer))),
      (''agent_answer_length'', JInt (int (length agent_answer))),
      (''task_id'', JStr tid)]"

definition failure_details :: "py_exception \<Rightarrow> string \<Rightarrow> string \<Rightarrow> string \<Rightarrow> (string \<times> json) list" where
  "failure_details e source_answer agent_answer tid =
     [(''error'', JStr (exc_str e)),
      (''task_id'', JStr tid),
      (''source_answer_length'', JInt (int (length source_answer))),
      (''agent_answer_length'', JInt (int (length agent_answer)))]"

text \<open>
  \<open>total_score / 100.0\<close> converts the integer to a float before dividing. An integer
  whose magnitude is \<open>2^1024 - 2^970\<close> or more rounds beyond the largest float, and the
  conversion raises OverflowError. Below that bound the quotient of the floats is
  modelled by the quotient of the reals.
\<close>

definition float_overflow :: "int \<Rightarrow> bool" where
  "float_overflow n = (2 ^ 1024 - 2 ^ 970 \<le> \<bar>n\<bar>)"

definition normalize_score :: "int \<Rightarrow> py_exception + real" where
  "normalize_score n =
     (if float_overflow n then Inl (OverflowError ''int too large to convert to float'')
      else Inr (real_of_int n / 100))"

text \<open>
  The two answers are resolved before the \<open>try\<close> block (the handler itself uses their
  lengths), so a raise of \<open>read_text\<close> leaves the function. The capability call, the
  division and the construction of the result are inside the \<open>try\<close>, and whatever
  they raise is turned into the failure result by the handler.
\<close>

definition evaluate_git_qa :: "filesystem \<Rightarrow> string \<Rightarrow> evaluator \<Rightarrow> Run \<Rightarrow> py_exception + EvalResult" where
  "evaluate_git_qa fs eval_dir ev =
     eval_function (\<lambda>run.
       let tid = task_id run in
       case get_source_answer fs eval_dir tid of
         Inl e \<Rightarrow> Inl e
       | Inr source_answer \<Rightarrow>
           (case get_agent_answer fs run of
              Inl e \<Rightarrow> Inl e
            | Inr agent_answer \<Rightarrow>
                (case (case ev tid source_answer agent_answer of
                         Inl e \<Rightarrow> Inl e
                       | Inr evaluation_result \<Rightarrow>
                           (case normalize_score (total_score evaluation_result) of
                              Inl e \<Rightarrow> Inl e
                            | Inr normalized_score \<Rightarrow>
                                Inr \<lparr>score = normalized_score,
                                     details = success_details evaluation_result
                                                 source_answer agent_answer tid\<rparr>)) of
                   Inr result \<Rightarrow> Inr result
                 | Inl e \<Rightarrow>
                     Inr \<lparr>score = 0,
                          details = failure_details e source_answer agent_answer tid\<rparr>)))"

text \<open>
  A task of the manifest, with the two fields \<open>evaluate_task\<close> reads; both are required
  by the \<open>Task\<close> model. \<open>env_path or f"./envs/{task_id}"\<close> takes the default for
  \<open>None\<close> and for the empty string.
\<close>

record task_data =
  td_task_id :: string
  td_task :: string

definition evaluate_task ::
  "filesystem \<Rightarrow> string \<Rightarrow> evaluator \<Rightarrow> task_data \<Rightarrow> string option \<Rightarrow> string option
     \<Rightarrow> py_exception + EvalResult" where
  "evaluate_task fs eval_dir ev td env answer =
     (let run = \<lparr>task_id = td_task_id td,
                 task = td_task td,
                 env_path = (case env of
                               None \<Rightarrow> ''./envs/'' @ td_task_id td
                             | Some p \<Rightarrow> if p = [] then ''./envs/'' @ td_task_id td else p),
                 agent_answer_path = answer,
                 source_answer_path = None\<rparr>
      in evaluate_git_qa fs eval_dir ev run)"

text \<open>
  One entry of \<open>results\<close> in the sweep of \<open>main\<close>: a dict with the keys \<open>task_id\<close> and
  \<open>score\<close>, and either \<open>details\<close> or \<open>error\<close>. An absent key is \<open>None\<close>.
\<close>

record result_row =
  row_task_id :: string
  row_score :: real
  row_details :: "(string \<times> json) list option"
  row_error :: "string option"

record summary =
  average_score :: real
  tasks_evaluated :: nat
  total_tasks :: nat

text \<open>The body of \<open>for task_data in tasks\<close>, appending to \<open>results\<close>.\<close>

fun sweep_loop ::
  "filesystem \<Rightarrow> string \<Rightarrow> evaluator \<Rightarrow> string option \<Rightarrow> task_data list \<Rightarrow> result_row list
     \<Rightarrow> result_row list" where
  "sweep_loop fs eval_dir ev env [] results = results"
| "sweep_loop fs eval_dir ev env (td # tasks) results =
     (case evaluate_task fs eval_dir ev td env None of
        Inr result \<Rightarrow>
          sweep_loop fs eval_dir ev env tasks
            (results @ [\<lparr>row_task_id = td_task_id td, row_score = score result,
                          row_details = Some (details result), row_error = None\<rparr>])
      | Inl e \<Rightarrow>
          sweep_loop fs eval_dir ev env tasks
            (results @ [\<lparr>row_task_id = td_task_id td, row_score = 0,
                          row_details = None, row_error = Some (exc_str e)\<rparr>]))"

text \<open>
  The sweep branch of \<open>main\<close> (no \<open>--task-id\<close>): the summary and the rows that are
  written to the output file.
\<close>

definition sweep ::
  "filesystem \<Rightarrow> string \<Rightarrow> evaluator \<Rightarrow> string option \<Rightarrow> task_data list
     \<Rightarrow> summary \<times> result_row list" where
  "sweep fs eval_dir ev env tasks =
     (let results = sweep_loop fs eval_dir ev env tasks [];
          valid_scores = map row_score (filter (\<lambda>r. row_error r = None) results);
          avg_score = (if valid_scores \<noteq> []
                       then sum_list valid_scores / real (length valid_scores) else 0)
      in (\<lparr>average_score = avg_score,
           tasks_evaluated = length valid_scores,
           total_tasks = length tasks\<rparr>, results))"

section \<open>generate.py: Python operations on decoded JSON\<close>

text \<open>
  The items, comments and cached files of \<open>generate.py\<close> are \<open>Dict[str, Any]\<close> values
  straight from the JSON decoder. The operations the source applies to them are modelled
  with the exception Python raises when a value has the wrong type.
\<close>

definition bind_exc :: "py_exception + 'a \<Rightarrow> ('a \<Rightarrow> py_exception + 'b) \<Rightarrow> py_exception + 'b" where
  "bind_exc m f = (case m of Inl e \<Rightarrow> Inl e | Inr x \<Rightarrow> f x)"

fun py_type_name :: "json \<Rightarrow> string" where
  "py_type_name JNull = ''NoneType''"
| "py_type_name (JBool b) = ''bool''"
| "py_type_name (JInt n) = ''int''"
| "py_type_name (JStr s) = ''str''"
| "py_type_name (JArr xs) = ''list''"
| "py_type_name (JObj kvs) = ''dict''"

text \<open>Truth value of a Python object, as \<open>if x:\<close> and \<open>not x\<close> take it.\<close>

fun truthy :: "json \<Rightarrow> bool" where
  "truthy JNull = False"
| "truthy (JBool b) = b"
| "truthy (JInt n) = (n \<noteq> 0)"
| "truthy (JStr s) = (s \<noteq> [])"
| "truthy (JArr xs) = (xs \<noteq> [])"
| "truthy (JObj kvs) = (kvs \<noteq> [])"

text \<open>\<open>x.get(key, default)\<close>: only a dict has the method.\<close>

fun py_get :: "json \<Rightarrow> string \<Rightarrow> json \<Rightarrow> py_exception + json" where
  "py_get (JObj kvs) k d = Inr (case map_of kvs k of Some v \<Rightarrow> v | None \<Rightarrow> d)"
| "py_get x k d =
     Inl (AttributeError ([CHR 0x27] @ py_type_name x @ [CHR 0x27]
                            @ '' object has no attribute '' @ [CHR 0x27] @ ''get'' @ [CHR 0x27]))"

text \<open>\<open>s in t\<close> for two strings: \<open>s\<close> occurs in \<open>t\<close> as a contiguous run.\<close>

fun occurs_in :: "string \<Rightarrow> string \<Rightarrow> bool" where
  "occurs_in s [] = (s = [])"
| "occurs_in s (c # cs) = (take (length s) (c # cs) = s \<or> occurs_in s cs)"

text \<open>\<open>key in x\<close> for a string key.\<close>

fun py_contains :: "string \<Rightarrow> json \<Rightarrow> py_exception + bool" where
  "py_contains k (JObj kvs) = Inr (map_of kvs k \<noteq> None)"
| "py_contains k (JArr xs) = Inr (List.member xs (JStr k))"
| "py_contains k (JStr s) = Inr (occurs_in k s)"
| "py_contains k x =
     Inl (TypeError (''argument of type '' @ [CHR 0x27] @ py_type_name x @ [CHR 0x27]
                       @ '' is not iterable''))"

text \<open>\<open>x[key]\<close> for a string key.\<close>

fun py_getitem :: "json \<Rightarrow> string \<Rightarrow> py_exception + json" where
  "py_getitem (JObj kvs) k =
     (case map_of kvs k of
        Some v \<Rightarrow> Inr v
      | None \<Rightarrow> Inl (KeyError ([CHR 0x27] @ k @ [CHR 0x27])))"
| "py_getitem (JArr xs) k = Inl (TypeError ''list indices must be integers or slices, not str'')"
| "py_getitem (JStr s) k =
     Inl (TypeError (''string indices must be integers, not '' @ [CHR 0x27] @ ''str'' @ [CHR 0x27]))"
| "py_getitem x k =
     Inl (TypeError ([CHR 0x27] @ py_type_name x @ [CHR 0x27] @ '' object is not subscriptable''))"

text \<open>
  \<open>x[:n]\<close>. A list and a string are cut to their first \<open>n\<close> elements; a dict takes
  the slice as a key and raises (TypeError up to Python 3.11, KeyError from 3.12 on);
  the other values are not subscriptable.
\<close>

fun py_slice :: "nat \<Rightarrow> json \<Rightarrow> py_exception + json" where
  "py_slice n (JArr xs) = Inr (JArr (take n xs))"
| "py_slice n (JStr s) = Inr (JStr (take n s))"
| "py_slice n (JObj kvs) = Inl (TypeError (''unhashable type: '' @ [CHR 0x27] @ ''slice'' @ [CHR 0x27]))"
| "py_slice n x =
     Inl (TypeError ([CHR 0x27] @ py_type_name x @ [CHR 0x27] @ '' object is not subscriptable''))"

text \<open>
  The elements a \<open>for\<close> loop, a comprehension or \<open>list.extend\<close> draws from a value:
  the elements of a list, the characters of a string, the keys of a dict.
\<close>

fun py_iter :: "json \<Rightarrow> py_exception + json list" where
  "py_iter (JArr xs) = Inr xs"
| "py_iter (JStr s) = Inr (map (\<lambda>c. JStr [c]) s)"
| "py_iter (JObj kvs) = Inr (map (\<lambda>kv. JStr (fst kv)) kvs)"
| "py_iter x =
     Inl (TypeError ([CHR 0x27] @ py_type_name x @ [CHR 0x27] @ '' object is not iterable''))"

fun py_len :: "json \<Rightarrow> py_exception + nat" where
  "py_len (JArr xs) = Inr (length xs)"
| "py_len (JStr s) = Inr (length s)"
| "py_len (JObj kvs) = Inr (length kvs)"
| "py_len x =
     Inl (TypeError (''object of type '' @ [CHR 0x27] @ py_type_name x @ [CHR 0x27]
                       @ '' has no len()''))"

text \<open>\<open>d[key] = v\<close> on a dict: an existing key keeps its place, a new key goes last.\<close>

fun dict_set :: "(string \<times> json) list \<Rightarrow> string \<Rightarrow> json \<Rightarrow> (string \<times> json) list" where
  "dict_set [] k v = [(k, v)]"
| "dict_set ((k', v') # kvs) k v =
     (if k' = k then (k, v) # kvs else (k', v') # dict_set kvs k v)"

text \<open>\<open>sep.join(parts)\<close> for a list of strings.\<close>

fun join :: "string \<Rightarrow> string list \<Rightarrow> string" where
  "join sep [] = []"
| "join sep [s] = s"
| "join sep (s # t # rest) = s @ sep @ join sep (t # rest)"

text \<open>\<open>[f(x) for x in xs]\<close> for a function that can raise: the first raise ends it.\<close>

fun map_exc :: "('a \<Rightarrow> py_exception + 'b) \<Rightarrow> 'a list \<Rightarrow> py_exception + 'b list" where
  "map_exc f [] = Inr []"
| "map_exc f (x # xs) =
     bind_exc (f x) (\<lambda>y. bind_exc (map_exc f xs) (\<lambda>ys. Inr (y # ys)))"

subsection \<open>\<open>str\<close> and \<open>repr\<close>\<close>

fun str_nat :: "nat \<Rightarrow> string" where
  "str_nat n =
     (if n < 10 then [''0123456789'' ! n]
      else str_nat (n div 10) @ [''0123456789'' ! (n mod 10)])"

definition str_int :: "int \<Rightarrow> string" where
  "str_int i = (if i < 0 then ''-'' @ str_nat (nat (- i)) else str_nat (nat i))"

definition hex2 :: "nat \<Rightarrow> string" where
  "hex2 n = [''0123456789abcdef'' ! ((n div 16) mod 16), ''0123456789abcdef'' ! (n mod 16)]"

text \<open>
  \<open>repr\<close> of a string of code points below 256: the quote is \<open>"\<close> when the string has
  a \<open>'\<close> and no \<open>"\<close>, else \<open>'\<close>; the backslash, the quote, newline, carriage return
  and tab are escaped, and so is every character that is not printable.
\<close>

definition printable :: "char \<Rightarrow> bool" where
  "printable c =
     (let n = (of_char c :: nat)
      in (32 \<le> n \<and> n < 127) \<or> (161 \<le> n \<and> n \<noteq> 173))"

definition repr_char :: "char \<Rightarrow> char \<Rightarrow> string" where
  "repr_char q c =
     (if c = CHR 0x5C then [CHR 0x5C, CHR 0x5C]
      else if c = q then [CHR 0x5C, q]
      else if c = CHR 0x0A then [CHR 0x5C, CHR ''n'']
      else if c = CHR 0x0D then [CHR 0x5C, CHR ''r'']
      else if c = CHR 0x09 then [CHR 0x5C, CHR ''t'']
      else if printable c then [c]
      else [CHR 0x5C, CHR ''x''] @ hex2 (of_char c))"

definition repr_str :: "string \<Rightarrow> string" where
  "repr_str s =
     (let q = (if CHR 0x27 \<in> set s \<and> CHR 0x22 \<notin> set s then CHR 0x22 else CHR 0x27)
      in [q] @ concat (map (repr_char q) s) @ [q])"

text \<open>
  \<open>repr\<close> and \<open>str\<close> of a decoded JSON value; they differ on strings only, and a
  container shows the \<open>repr\<close> of its elements.
\<close>

fun py_repr :: "json \<Rightarrow> string" where
  "py_repr JNull = ''None''"
| "py_repr (JBool b) = (if b then ''True'' else ''False'')"
| "py_repr (JInt n) = str_int n"
| "py_repr (JStr s) = repr_str s"
| "py_repr (JArr xs) = ''['' @ join '', '' (map py_repr xs) @ '']''"
| "py_repr (JObj kvs) =
     ''{'' @ join '', '' (map (\<lambda>kv. repr_str (fst kv) @ '': '' @ py_repr (snd kv)) kvs) @ ''}''"

fun py_str :: "json \<Rightarrow> string" where
  "py_str (JStr s) = s"
| "py_str x = py_repr x"

section \<open>generate.py: rendering items\<close>

text \<open>
  One pass of the loop body in \<open>format_pr_as_xml\<close> and \<open>format_issue_as_xml\<close> (the two
  bodies are the same text): the block appended to \<open>comments_xml\<close> for one comment. The
  three fields are evaluated in the order of the template.
\<close>

definition render_comment :: "json \<Rightarrow> py_exception + string" where
  "render_comment comment =
     bind_exc (py_get comment ''user'' (JObj [])) (\<lambda>user.
     bind_exc (py_get user ''login'' (JStr ''unknown'')) (\<lambda>login.
     bind_exc (py_get comment ''created_at'' (JStr ''unknown'')) (\<lambda>created_at.
     bind_exc (py_get comment ''body'' (JStr ''No content'')) (\<lambda>body.
     bind_exc (py_slice 500 body) (\<lambda>body500.
       Inr (''    <comment>\<newline>      <author>'' @ py_str login @ ''</author>\<newline>''
            @ ''      <created_at>'' @ py_str created_at @ ''</created_at>\<newline>''
            @ ''      <body>'' @ py_str body500 @ ''</body>\<newline>''
            @ ''    </comment>\<newline>''))))))"

text \<open>\<open>for comment in ...: comments_xml += ...\<close>, from the current \<open>comments_xml\<close>.\<close>

fun comments_loop :: "json list \<Rightarrow> string \<Rightarrow> py_exception + string" where
  "comments_loop [] comments_xml = Inr comments_xml"
| "comments_loop (comment # rest) comments_xml =
     bind_exc (render_comment comment) (\<lambda>block. comments_loop rest (comments_xml @ block))"

text \<open>
  The first nine lines of both functions: \<open>comments_xml\<close> for an item. The test
  \<open>'comments' in item and item['comments']\<close> reads the key only when it is there.
\<close>

definition comments_xml_of :: "json \<Rightarrow> py_exception + string" where
  "comments_xml_of item =
     bind_exc (py_contains ''comments'' item) (\<lambda>present.
       if \<not> present then Inr []
       else bind_exc (py_getitem item ''comments'') (\<lambda>comments.
         if \<not> truthy comments then Inr []
         else bind_exc (py_slice 10 comments) (\<lambda>first10.
              bind_exc (py_iter first10) (\<lambda>cs.
              bind_exc (comments_loop cs ''\<newline>  <comments>\<newline>'') (\<lambda>xml.
                Inr (xml @ ''  </comments>''))))))"

definition format_pr_as_xml :: "json \<Rightarrow> py_exception + string" where
  "format_pr_as_xml pr =
     bind_exc (comments_xml_of pr) (\<lambda>comments_xml.
     bind_exc (py_get pr ''number'' (JStr ''N/A'')) (\<lambda>number.
     bind_exc (py_get pr ''title'' (JStr ''No title'')) (\<lambda>title.
     bind_exc (py_get pr ''state'' (JStr ''unknown'')) (\<lambda>state.
     bind_exc (py_get pr ''user'' (JObj [])) (\<lambda>user.
     bind_exc (py_get user ''login'' (JStr ''unknown'')) (\<lambda>login.
     bind_exc (py_get pr ''created_at'' (JStr ''unknown'')) (\<lambda>created_at.
     bind_exc (py_get pr ''updated_at'' (JStr ''unknown'')) (\<lambda>updated_at.
     bind_exc (py_get pr ''merged'' (JBool False)) (\<lambda>merged.
     bind_exc (py_get pr ''body'' (JStr ''No description'')) (\<lambda>body.
       Inr (''<pull_request number='' @ [CHR 0x22] @ py_str number @ [CHR 0x22] @ ''>\<newline>''
            @ ''  <title>'' @ py_str title @ ''</title>\<newline>''
            @ ''  <state>'' @ py_str state @ ''</state>\<newline>''
            @ ''  <author>'' @ py_str login @ ''</author>\<newline>''
            @ ''  <created_at>'' @ py_str created_at @ ''</created_at>\<newline>''
            @ ''  <updated_at>'' @ py_str updated_at @ ''</updated_at>\<newline>''
            @ ''  <merged>'' @ py_str merged @ ''</merged>\<newline>''
            @ ''  <body>'' @ py_str body @ ''</body>'' @ comments_xml @ ''\<newline>''
            @ ''</pull_request>'')))))))))))"

text \<open>
  \<open>[label['name'] for label in issue.get('labels', [])]\<close>, then \<open>', '.join\<close>, which
  takes strings only.
\<close>

fun label_names :: "json list \<Rightarrow> py_exception + json list" where
  "label_names [] = Inr []"
| "label_names (label # rest) =
     bind_exc (py_getitem label ''name'') (\<lambda>name.
     bind_exc (label_names rest) (\<lambda>names. Inr (name # names)))"

fun join_values :: "string \<Rightarrow> json list \<Rightarrow> nat \<Rightarrow> py_exception + string list" where
  "join_values sep [] i = Inr []"
| "join_values sep (JStr s # rest) i =
     bind_exc (join_values sep rest (Suc i)) (\<lambda>parts. Inr (s # parts))"
| "join_values sep (x # rest) i =
     Inl (TypeError (''sequence item '' @ str_nat i @ '': expected str instance, ''
                       @ py_type_name x @ '' found''))"

definition labels_text :: "json \<Rightarrow> py_exception + string" where
  "labels_text issue =
     bind_exc (py_get issue ''labels'' (JArr [])) (\<lambda>labels.
     bind_exc (py_iter labels) (\<lambda>ls.
     bind_exc (label_names ls) (\<lambda>names.
     bind_exc (join_values '', '' names 0) (\<lambda>parts. Inr (join '', '' parts)))))"

definition format_issue_as_xml :: "json \<Rightarrow> py_exception + string" where
  "format_issue_as_xml issue =
     bind_exc (py_contains ''pull_request'' issue) (\<lambda>is_pr.
       if is_pr then Inr []
       else
         bind_exc (comments_xml_of issue) (\<lambda>comments_xml.
         bind_exc (py_get issue ''number'' (JStr ''N/A'')) (\<lambda>number.
         bind_exc (py_get issue ''title'' (JStr ''No title'')) (\<lambda>title.
         bind_exc (py_get issue ''state'' (JStr ''unknown'')) (\<lambda>state.
         bind_exc (py_get issue ''user'' (JObj [])) (\<lambda>user.
         bind_exc (py_get user ''login'' (JStr ''unknown'')) (\<lambda>login.
         bind_exc (py_get issue ''created_at'' (JStr ''unknown'')) (\<lambda>created_at.
         bind_exc (py_get issue ''updated_at'' (JStr ''unknown'')) (\<lambda>updated_at.
         bind_exc (labels_text issue) (\<lambda>labels.
         bind_exc (py_get issue ''body'' (JStr ''No description'')) (\<lambda>body.
           Inr (''<issue number='' @ [CHR 0x22] @ py_str number @ [CHR 0x22] @ ''>\<newline>''
                @ ''  <title>'' @ py_str title @ ''</title>\<newline>''
                @ ''  <state>'' @ py_str state @ ''</state>\<newline>''
                @ ''  <author>'' @ py_str login @ ''</author>\<newline>''
                @ ''  <created_at>'' @ py_str created_at @ ''</created_at>\<newline>''
                @ ''  <updated_at>'' @ py_str updated_at @ ''</updated_at>\<newline>''
                @ ''  <labels>'' @ labels @ ''</labels>\<newline>''
                @ ''  <body>'' @ py_str body @ ''</body>'' @ comments_xml @ ''\<newline>''
                @ ''</issue>''))))))))))))"

section \<open>generate.py: fetching the history\<close>

text \<open>
  A request as \<open>requests.get\<close> receives it, and what the call gives back. The response
  carries the status code, the text, the outcome of \<open>response.json()\<close> (the decoded value,
  or the exception of a body that is not JSON), and the \<open>X-RateLimit-Remaining\<close> header:
  absent, a text that \<open>int()\<close> converts to the given integer, or a text on which
  \<open>int()\<close> raises.
\<close>

record request =
  url :: string
  params :: "(string \<times> json) list"
  headers :: "(string \<times> string) list"

datatype remaining_header = NoRemaining | Remaining int | MalformedRemaining string

record response =
  status_code :: int
  response_text :: string
  json_body :: "py_exception + json"
  rate_limit_remaining :: remaining_header

text \<open>
  The remote API is a parameter: it answers a request, given the requests made so far,
  with a response or with the exception \<open>requests.get\<close> raises.

  The world a fetch runs in holds the files at the cache paths and the log of the
  requests sent. A file is what \<open>open\<close> and \<open>json.load\<close> make of it: the decoded
  value, or the exception raised for content that cannot be opened or is not JSON.
  Writing a file is taken to succeed; directories (\<open>mkdir\<close>), console output and the
  \<open>time.sleep\<close> delays are not part of the world.
\<close>

type_synonym remote = "request list \<Rightarrow> request \<Rightarrow> py_exception + response"

record world =
  files :: "string \<rightharpoonup> (py_exception + json)"
  log :: "request list"

definition requests_get :: "remote \<Rightarrow> request \<Rightarrow> world \<Rightarrow> (py_exception + response) \<times> world" where
  "requests_get api req w = (api (log w) req, w\<lparr>log := log w @ [req]\<rparr>)"

text \<open>One \<open>requests.get\<close> followed by \<open>if response.status_code == 200: all_comments.extend(response.json())\<close>.\<close>

definition extend_with_comments ::
  "remote \<Rightarrow> request \<Rightarrow> json list \<Rightarrow> world \<Rightarrow> (py_exception + json list) \<times> world" where
  "extend_with_comments api req all_comments w =
     (case requests_get api req w of
        (Inl e, w1) \<Rightarrow> (Inl e, w1)
      | (Inr resp, w1) \<Rightarrow>
          if status_code resp = 200
          then (bind_exc (json_body resp) (\<lambda>body.
                bind_exc (py_iter body) (\<lambda>cs. Inr (all_comments @ cs))), w1)
          else (Inr all_comments, w1))"

definition fetch_comments ::
  "remote \<Rightarrow> string \<Rightarrow> string \<Rightarrow> string \<Rightarrow> json \<Rightarrow> (string \<times> string) list \<Rightarrow> world
     \<Rightarrow> (py_exception + json) \<times> world" where
  "fetch_comments api owner repo item_type item_number hdrs w =
     (if item_type = ''pulls'' then
        (let issue_comments_url = ''https://api.github.com/repos/'' @ owner @ ''/'' @ repo
                                    @ ''/issues/'' @ py_str item_number @ ''/comments'';
             review_comments_url = ''https://api.github.com/repos/'' @ owner @ ''/'' @ repo
                                    @ ''/pulls/'' @ py_str item_number @ ''/comments''
         in case extend_with_comments api
                   \<lparr>url = issue_comments_url, params = [], headers = hdrs\<rparr> [] w of
              (Inl e, w1) \<Rightarrow> (Inl e, w1)
            | (Inr all_comments, w1) \<Rightarrow>
                (case extend_with_comments api
                        \<lparr>url = review_comments_url, params = [], headers = hdrs\<rparr> all_comments w1 of
                   (Inl e, w2) \<Rightarrow> (Inl e, w2)
                 | (Inr all_comments', w2) \<Rightarrow> (Inr (JArr all_comments'), w2)))
      else
        (let comments_url = ''https://api.github.com/repos/'' @ owner @ ''/'' @ repo
                              @ ''/issues/'' @ py_str item_number @ ''/comments''
         in case requests_get api \<lparr>url = comments_url, params = [], headers = hdrs\<rparr> w of
              (Inl e, w1) \<Rightarrow> (Inl e, w1)
            | (Inr resp, w1) \<Rightarrow>
                if status_code resp = 200 then (json_body resp, w1) else (Inr (JArr []), w1)))"

text \<open>
  \<open>for item in items: ...\<close> of \<open>fetch_github_data\<close>: each item with a true \<open>number\<close>
  gets its comments stored under \<open>comments\<close>. The result is the list of the items as
  the loop leaves them.
\<close>

fun comments_for_items ::
  "remote \<Rightarrow> string \<Rightarrow> string \<Rightarrow> string \<Rightarrow> (string \<times> string) list \<Rightarrow> json list \<Rightarrow> world
     \<Rightarrow> (py_exception + json list) \<times> world" where
  "comments_for_items api owner repo data_type hdrs [] w = (Inr [], w)"
| "comments_for_items api owner repo data_type hdrs (item # rest) w =
     (case py_get item ''number'' JNull of
        Inl e \<Rightarrow> (Inl e, w)
      | Inr item_number \<Rightarrow>
          if truthy item_number then
            (case fetch_comments api owner repo data_type item_number hdrs w of
               (Inl e, w1) \<Rightarrow> (Inl e, w1)
             | (Inr comments, w1) \<Rightarrow>
                 (case item of
                    JObj kvs \<Rightarrow>
                      (case comments_for_items api owner repo data_type hdrs rest w1 of
                         (Inl e, w2) \<Rightarrow> (Inl e, w2)
                       | (Inr rest', w2) \<Rightarrow> (Inr (JObj (dict_set kvs ''comments'' comments) # rest'), w2))
                  | _ \<Rightarrow> (Inl (TypeError ([CHR 0x27] @ py_type_name item @ [CHR 0x27]
                                  @ '' object does not support item assignment'')), w1)))
          else
            (case comments_for_items api owner repo data_type hdrs rest w of
               (Inl e, w2) \<Rightarrow> (Inl e, w2)
             | (Inr rest', w2) \<Rightarrow> (Inr (item # rest'), w2)))"

text \<open>
  The request for one page of the listing, with the fixed parameters and the
  \<open>Authorization\<close> header when \<open>GITHUB_TOKEN\<close> is set and not empty.
\<close>

definition auth_headers :: "string option \<Rightarrow> (string \<times> string) list" where
  "auth_headers github_token =
     (case github_token of
        None \<Rightarrow> []
      | Some t \<Rightarrow> if t = [] then [] else [(''Authorization'', ''token '' @ t)])"

definition listing_request :: "string option \<Rightarrow> string \<Rightarrow> string \<Rightarrow> string \<Rightarrow> nat \<Rightarrow> request" where
  "listing_request github_token owner repo data_type page =
     \<lparr>url = ''https://api.github.com/repos/'' @ owner @ ''/'' @ repo @ ''/'' @ data_type,
      params = [(''state'', JStr ''all''), (''per_page'', JInt 100), (''sort'', JStr ''created''),
                (''direction'', JStr ''desc''), (''page'', JInt (int page))],
      headers = auth_headers github_token\<rparr>"

text \<open>
  One pass of the body of \<open>while True\<close>: it raises, leaves the loop with the list to
  return (\<open>break\<close>), or goes on to the next page with the longer list. When comments
  are fetched, the length of the page is printed before its items are visited, so a
  body without a length raises there.
\<close>

datatype page_outcome = Raise py_exception | Break "json list" | Next "json list"

definition fetch_page ::
  "remote \<Rightarrow> string option \<Rightarrow> string \<Rightarrow> string \<Rightarrow> string \<Rightarrow> string \<Rightarrow> bool \<Rightarrow> nat \<Rightarrow> json list
     \<Rightarrow> world \<Rightarrow> page_outcome \<times> world" where
  "fetch_page api github_token owner repo data_type save_path fetch_comments_flag page all_items w =
     (case requests_get api (listing_request github_token owner repo data_type page) w of
        (Inl e, w1) \<Rightarrow> (Raise e, w1)
      | (Inr resp, w1) \<Rightarrow>
          if status_code resp \<noteq> 200 then (Break all_items, w1)
          else
            (case json_body resp of
               Inl e \<Rightarrow> (Raise e, w1)
             | Inr items \<Rightarrow>
                 if \<not> truthy items then (Break all_items, w1)
                 else
                   (case (if fetch_comments_flag
                          then (case py_len items of
                                  Inl e \<Rightarrow> (Inl e, w1)
                                | Inr n \<Rightarrow>
                                    (case py_iter items of
                                       Inl e \<Rightarrow> (Inl e, w1)
                                     | Inr its \<Rightarrow>
                                         comments_for_items api owner repo data_type
                                           (auth_headers github_token) its w1))
                          else (py_iter items, w1)) of
                      (Inl e, w2) \<Rightarrow> (Raise e, w2)
                    | (Inr its, w2) \<Rightarrow>
                        (let all_items' = all_items @ its;
                             w3 = w2\<lparr>files := (files w2)(save_path \<mapsto> Inr (JArr all_items'))\<rparr>
                         in case rate_limit_remaining resp of
                              NoRemaining \<Rightarrow> (Next all_items', w3)
                            | MalformedRemaining s \<Rightarrow>
                                (Raise (ValueError (''invalid literal for int() with base 10: ''
                                                      @ repr_str s)), w3)
                            | Remaining remaining \<Rightarrow>
                                if remaining < 10 then (Break all_items', w3)
                                else (Next all_items', w3)))))"

text \<open>
  The paging loop from page \<open>page\<close> with \<open>all_items\<close> accumulated. A remote that never
  sends an empty page, a failure or a low quota keeps it running for ever: the result
  is \<open>None\<close> then.
\<close>

partial_function (option) paging_loop ::
  "remote \<Rightarrow> string option \<Rightarrow> string \<Rightarrow> string \<Rightarrow> string \<Rightarrow> string \<Rightarrow> bool \<Rightarrow> nat \<Rightarrow> json list
     \<Rightarrow> world \<Rightarrow> ((py_exception + json) \<times> world) option" where
  "paging_loop api github_token owner repo data_type save_path fetch_comments_flag page all_items w =
     (case fetch_page api github_token owner repo data_type save_path fetch_comments_flag
             page all_items w of
        (Raise e, w') \<Rightarrow> Some (Inl e, w')
      | (Break items, w') \<Rightarrow> Some (Inr (JArr items), w')
      | (Next items, w') \<Rightarrow>
          paging_loop api github_token owner repo data_type save_path fetch_comments_flag
            (page + 1) items w')"

text \<open>
  \<open>fetch_github_data\<close>. When \<open>save_path\<close> exists the file is loaded, its length is
  printed and the loaded value is returned; otherwise the paging loop starts at page 1
  with no items.
\<close>

definition fetch_github_data ::
  "remote \<Rightarrow> string option \<Rightarrow> string \<Rightarrow> string \<Rightarrow> string \<Rightarrow> string \<Rightarrow> bool \<Rightarrow> world
     \<Rightarrow> ((py_exception + json) \<times> world) option" where
  "fetch_github_data api github_token owner repo data_type save_path fetch_comments_flag w =
     (case files w save_path of
        Some f \<Rightarrow>
          Some (bind_exc f (\<lambda>existing_data.
                bind_exc (py_len existing_data) (\<lambda>n. Inr existing_data)), w)
      | None \<Rightarrow>
          paging_loop api github_token owner repo data_type save_path fetch_comments_flag
            1 [] w)"

section \<open>The pages fetched before a failure, in the words of the specification\<close>

text \<open>
  A listing response leaves quota for another page when it has no
  \<open>X-RateLimit-Remaining\<close> header or the header gives 10 or more.
\<close>

definition quota_left :: "response \<Rightarrow> bool" where
  "quota_left resp =
     (case rate_limit_remaining resp of
        NoRemaining \<Rightarrow> True
      | Remaining remaining \<Rightarrow> 10 \<le> remaining
      | MalformedRemaining s \<Rightarrow> False)"

text \<open>
  Page \<open>n\<close> of the listing is fetched in world \<open>w\<close> when the remote answers the
  request for it with status 200, a non-empty JSON array of items and quota left, and,
  if comments are asked for, the comment requests for its items succeed. The page then
  gives the items of that array (each with its comments, if asked for) and the world
  with the requests of the page logged.
\<close>

definition page_received ::
  "remote \<Rightarrow> string option \<Rightarrow> string \<Rightarrow> string \<Rightarrow> string \<Rightarrow> bool \<Rightarrow> nat \<Rightarrow> world
     \<Rightarrow> (json list \<times> world) option" where
  "page_received api github_token owner repo data_type fetch_comments_flag n w =
     (let req = listing_request github_token owner repo data_type n;
          w1 = w\<lparr>log := log w @ [req]\<rparr>
      in case api (log w) req of
           Inl e \<Rightarrow> None
         | Inr resp \<Rightarrow>
             if status_code resp = 200 \<and> quota_left resp then
               (case json_body resp of
                  Inr (JArr items) \<Rightarrow>
                    if items = [] then None
                    else if fetch_comments_flag then
                      (case comments_for_items api owner repo data_type
                              (auth_headers github_token) items w1 of
                         (Inr items', w2) \<Rightarrow> Some (items', w2)
                       | (Inl e, w2) \<Rightarrow> None)
                    else Some (items, w1)
                | _ \<Rightarrow> None)
             else None)"

text \<open>
  Pages 1 to \<open>k\<close> are fetched one after the other from world \<open>w\<close>: the result is the
  list of the item lists of these pages, in page order, and the world after them, in
  which the cache file at \<open>save_path\<close> holds all their items. It is \<open>None\<close> when one
  of the \<open>k\<close> pages is not fetched.
\<close>

fun pages_received ::
  "remote \<Rightarrow> string option \<Rightarrow> string \<Rightarrow> string \<Rightarrow> string \<Rightarrow> string \<Rightarrow> bool \<Rightarrow> nat \<Rightarrow> world
     \<Rightarrow> (json list list \<times> world) option" where
  "pages_received api github_token owner repo data_type save_path fetch_comments_flag 0 w =
     Some ([], w)"
| "pages_received api github_token owner repo data_type save_path fetch_comments_flag (Suc k) w =
     (case pages_received api github_token owner repo data_type save_path fetch_comments_flag k w of
        None \<Rightarrow> None
      | Some (pages, w1) \<Rightarrow>
          (case page_received api github_token owner repo data_type fetch_comments_flag (Suc k) w1 of
             None \<Rightarrow> None
           | Some (items, w2) \<Rightarrow>
               Some (pages @ [items],
                     w2\<lparr>files := (files w2)(save_path \<mapsto> Inr (JArr (concat (pages @ [items]))))\<rparr>)))"

section \<open>generate.py: generating the tasks of one type\<close>

record GitHubQATask =
  qa_task_id :: string
  qa_task :: string
  qa_success_criteria :: string

text \<open>The input fields of \<open>GenerateGitHubQATasks\<close> and its two output fields.\<close>

record generator_input =
  task_type :: string
  task_type_description :: string
  pull_requests :: string
  issues :: string
  examples :: string
  repo_name :: string
  num_tasks :: int

record generator_output =
  tasks :: "GitHubQATask list"
  reasoning :: string

record deduplicator_output =
  unique_tasks :: "GitHubQATask list"
  removed_count :: int

text \<open>
  The two capabilities, \<open>dspy.ChainOfThought(GenerateGitHubQATasks)\<close> and
  \<open>dspy.ChainOfThought(DeduplicateTasks)\<close>, are parameters: each raises or returns its
  output fields.
\<close>

type_synonym generator = "generator_input \<Rightarrow> py_exception + generator_output"

type_synonym deduplicator = "GitHubQATask list \<Rightarrow> py_exception + deduplicator_output"

definition examples_header :: string where
  "examples_header =
     ''IMPORTANT: Success criteria should be attainable via referencing information available in a git repository:\<newline>''
     @ ''- Commit hashes, commit messages, commit authors, commit dates\<newline>''
     @ ''- File changes, file paths, code modifications\<newline>''
     @ ''- Branch names, tags, merge commits\<newline>''
     @ ''- Git log output, git blame information\<newline>''
     @ ''\<newline>''
     @ ''Do NOT reference:\<newline>''
     @ ''- PR numbers or PR titles\<newline>''
     @ ''- Issue numbers or issue descriptions\<newline>''
     @ ''- GitHub comments or reviews\<newline>''
     @ ''\<newline>''
     @ ''Do NOT include explicit git commits, branches, or tags in the success criteria. \<newline>''
     @ ''\<newline>''
     @ ''Examples:\<newline>''"

text \<open>The text of example \<open>i\<close> (counted from 0) in the enumeration.\<close>

definition example_text :: "nat \<times> json \<Rightarrow> py_exception + string" where
  "example_text p =
     (case p of (i, ex) \<Rightarrow>
        bind_exc (py_getitem ex ''task_id'') (\<lambda>tid.
        bind_exc (py_getitem ex ''task'') (\<lambda>t.
          Inr (''Example '' @ str_nat (i + 1) @ '':\<newline>- Task ID: '' @ py_str tid
               @ ''\<newline>- Task: '' @ py_str t))))"

text \<open>The dict appended to \<open>generated_tasks\<close> for one unique task.\<close>

definition task_dict :: "string \<Rightarrow> GitHubQATask \<Rightarrow> json" where
  "task_dict repo t =
     JObj [(''task_id'', JStr (qa_task_id t)),
           (''task'', JStr (qa_task t)),
           (''success_criteria'', JStr (qa_success_criteria t)),
           (''dir_name'', JStr (''github_qa/'' @ repo))]"

text \<open>
  The part of \<open>generate_tasks_for_type\<close> before the \<open>try\<close> block: the two context
  strings and the examples text, put together as the input of the generator. A raise
  while rendering an item or an example is raised here.
\<close>

definition generation_input ::
  "string \<Rightarrow> string \<Rightarrow> json \<Rightarrow> json \<Rightarrow> json \<Rightarrow> string \<Rightarrow> int \<Rightarrow> py_exception + generator_input" where
  "generation_input ttype task_description prs iss exs repo n =
     bind_exc (py_slice 30 prs) (\<lambda>prs30.
     bind_exc (py_iter prs30) (\<lambda>pr_list.
     bind_exc (map_exc format_pr_as_xml pr_list) (\<lambda>pr_xmls.
     bind_exc (py_slice 30 iss) (\<lambda>iss30.
     bind_exc (py_iter iss30) (\<lambda>issue_list.
     bind_exc (map_exc format_issue_as_xml issue_list) (\<lambda>issue_xmls.
     bind_exc (py_iter exs) (\<lambda>example_list.
     bind_exc (map_exc example_text (enumerate 0 example_list)) (\<lambda>example_texts.
       let pr_xml = join ''\<newline>'' pr_xmls;
           issue_xml = join ''\<newline>'' (filter (\<lambda>xml. xml \<noteq> []) issue_xmls);
           examples_text = examples_header @ join ''\<newline>'' example_texts
       in Inr \<lparr>task_type = ttype, task_type_description = task_description,
                pull_requests = pr_xml, issues = issue_xml, examples = examples_text,
                repo_name = repo, num_tasks = n\<rparr>))))))))"

text \<open>
  \<open>generate_tasks_for_type\<close>. The calls of both capabilities are inside the one
  \<open>try\<close> block, whose handler returns the empty list.
\<close>

definition generate_tasks_for_type ::
  "generator \<Rightarrow> deduplicator \<Rightarrow> string \<Rightarrow> string \<Rightarrow> json \<Rightarrow> json \<Rightarrow> json \<Rightarrow> string \<Rightarrow> int
     \<Rightarrow> py_exception + json list" where
  "generate_tasks_for_type gen dedup ttype task_description prs iss exs repo n =
     bind_exc (generation_input ttype task_description prs iss exs repo n) (\<lambda>inp.
       case gen inp of
         Inl e \<Rightarrow> Inr []
       | Inr result \<Rightarrow>
           (case dedup (tasks result) of
              Inl e \<Rightarrow> Inr []
            | Inr dedup_result \<Rightarrow> Inr (map (task_dict repo) (unique_tasks dedup_result))))"

section \<open>The rendering caps, in the words of the specification\<close>

text \<open>
  An item cut to the caps of the context block: at most the first 10 comments, and of
  each comment body that is a text at most the first 500 characters. Everything else
  in the item and in the comments stays as it is.
\<close>

fun cut_body :: "json \<Rightarrow> json" where
  "cut_body (JStr s) = JStr (take 500 s)"
| "cut_body v = v"

fun capped_comment :: "json \<Rightarrow> json" where
  "capped_comment (JObj kvs) =
     JObj (map (\<lambda>kv. if fst kv = ''body'' then (fst kv, cut_body (snd kv)) else kv) kvs)"
| "capped_comment c = c"

fun cut_comments :: "json \<Rightarrow> json" where
  "cut_comments (JArr cs) = JArr (map capped_comment (take 10 cs))"
| "cut_comments v = v"

fun capped_item :: "json \<Rightarrow> json" where
  "capped_item (JObj kvs) =
     JObj (map (\<lambda>kv. if fst kv = ''comments'' then (fst kv, cut_comments (snd kv)) else kv) kvs)"
| "capped_item item = item"

text \<open>The item without its comments: the dict with the key \<open>comments\<close> removed.\<close>

fun without_comments :: "json \<Rightarrow> json" where
  "without_comments (JObj kvs) = JObj (filter (\<lambda>kv. fst kv \<noteq> ''comments'') kvs)"
| "without_comments item = item"

section \<open>The rubric contract, in the words of the specification\<close>

text \<open>
  The total is the sum of the four dimension scores and lies in [0,100]; each dimension
  score lies in [0,25].
\<close>

definition rubric_invariant :: "EvaluationResult \<Rightarrow> bool" where
  "rubric_invariant er \<longleftrightarrow>
     total_score er = pattern_recognition er + specific_evidence er
                        + root_cause_analysis er + actionable_insights er
     \<and> 0 \<le> total_score er \<and> total_score er \<le> 100"

definition dimensions_in_range :: "EvaluationResult \<Rightarrow> bool" where
  "dimensions_in_range er \<longleftrightarrow>
     0 \<le> pattern_recognition er \<and> pattern_recognition er \<le> 25 \<and>
     0 \<le> specific_evidence er \<and> specific_evidence er \<le> 25 \<and>
     0 \<le> root_cause_analysis er \<and> root_cause_analysis er \<le> 25 \<and>
     0 \<le> actionable_insights er \<and> actionable_insights er \<le> 25"

section \<open>Sample runs, capabilities and file systems\<close>

definition no_answer :: string where
  "no_answer = ''No agent answer file found. Agent may have provided answer in terminal output only.''"

definition no_files :: filesystem where
  "no_files = (\<lambda>p. Absent)"

definition sample_run :: Run where
  "sample_run = \<lparr>task_id = ''t1'', task = ''Why did the build break?'', env_path = ''./envs/t1'',
                  agent_answer_path = None, source_answer_path = None\<rparr>"

definition inflated_result :: EvaluationResult where
  "inflated_result =
     \<lparr>pattern_recognition = 0, pattern_recognition_justification = ''none'',
      specific_evidence = 0, specific_evidence_justification = ''none'',
      root_cause_analysis = 0, root_cause_analysis_justification = ''none'',
      actionable_insights = 0, actionable_insights_justification = ''none'',
      total_score = 150, overall_assessment = ''poor''\<rparr>"

definition inflated_evaluator :: evaluator where
  "inflated_evaluator tid source_answer agent_answer = Inr inflated_result"

definition fair_result :: EvaluationResult where
  "fair_result =
     \<lparr>pattern_recognition = 20, pattern_recognition_justification = ''two patterns named'',
      specific_evidence = 15, specific_evidence_justification = ''few commits cited'',
      root_cause_analysis = 15, root_cause_analysis_justification = ''partial'',
      actionable_insights = 10, actionable_insights_justification = ''vague'',
      total_score = 60, overall_assessment = ''fair''\<rparr>"

definition negative_result :: EvaluationResult where
  "negative_result = fair_result\<lparr>total_score := - 5\<rparr>"

definition huge_result :: EvaluationResult where
  "huge_result = fair_result\<lparr>total_score := 2 ^ 1024\<rparr>"

definition huge_evaluator :: evaluator where
  "huge_evaluator tid source_answer agent_answer = Inr huge_result"

definition negative_evaluator :: evaluator where
  "negative_evaluator tid source_answer agent_answer = Inr negative_result"

text \<open>Raises for task \<open>t3\<close>, scores every other task as \<open>fair_result\<close>.\<close>

definition flaky_evaluator :: evaluator where
  "flaky_evaluator tid source_answer agent_answer =
     (if tid = ''t3'' then Inl (GenerationError ''model overloaded'') else Inr fair_result)"

text \<open>The reference answer of task \<open>t2\<close> exists and cannot be read; nothing else exists.\<close>

definition locked_source_fs :: filesystem where
  "locked_source_fs =
     (\<lambda>p. if p = ''/bench/dataset_from_dspy/source_answers/t2.md''
          then Unreadable (OSError ''Permission denied'') else Absent)"

definition sample_tasks :: "task_data list" where
  "sample_tasks =
     [\<lparr>td_task_id = ''t1'', td_task = ''q1''\<rparr>,
      \<lparr>td_task_id = ''t2'', td_task = ''q2''\<rparr>,
      \<lparr>td_task_id = ''t3'', td_task = ''q3''\<rparr>]"

definition run_t2 :: Run where
  "run_t2 = \<lparr>task_id = ''t2'', task = ''q2'', env_path = ''./envs/t2'',
              agent_answer_path = None, source_answer_path = None\<rparr>"

definition run_t3 :: Run where
  "run_t3 = \<lparr>task_id = ''t3'', task = ''q3'', env_path = ''./envs/t3'',
              agent_answer_path = None, source_answer_path = None\<rparr>"

text \<open>The candidate answer named by the run exists and cannot be read.\<close>

definition locked_answer_fs :: filesystem where
  "locked_answer_fs =
     (\<lambda>p. if p = ''/tmp/answer.md'' then Unreadable (OSError ''Is a directory'') else Absent)"

definition run_with_answer :: Run where
  "run_with_answer = sample_run\<lparr>agent_answer_path := Some ''/tmp/answer.md''\<rparr>"

section \<open>Sample capabilities for task generation\<close>

definition failing_deduplicator :: deduplicator where
  "failing_deduplicator ts = Inl (GenerationError ''deduplication timed out'')"

definition failing_generator :: generator where
  "failing_generator inp = Inl (GenerationError ''generation timed out'')"

definition two_task_generator :: generator where
  "two_task_generator inp =
     Inr \<lparr>tasks = [\<lparr>qa_task_id = ''bug_patterns_1'', qa_task = ''Which crash recurs?'',
                      qa_success_criteria = ''names the parser''\<rparr>,
                    \<lparr>qa_task_id = ''bug_patterns_2'', qa_task = ''Which crash keeps recurring?'',
                      qa_success_criteria = ''names the parser''\<rparr>],
          reasoning = ''two close variants''\<rparr>"

section \<open>A sample remote and sample worlds\<close>

definition issue_7 :: json where
  "issue_7 = JObj [(''number'', JInt 7), (''title'', JStr ''Crash on load'')]"

definition comment_a :: json where
  "comment_a = JObj [(''user'', JObj [(''login'', JStr ''ann'')]), (''body'', JStr ''Same here.'')]"

definition issue_7_with_comments :: json where
  "issue_7_with_comments =
     JObj [(''number'', JInt 7), (''title'', JStr ''Crash on load''),
           (''comments'', JArr [comment_a])]"

text \<open>
  Page 1 of the issues of \<open>acme/tool\<close> holds one issue, which has one comment; every
  other page of the listing answers 502.
\<close>

definition sample_remote :: remote where
  "sample_remote sent req =
     (if url req = ''https://api.github.com/repos/acme/tool/issues'' then
        (if map_of (params req) ''page'' = Some (JInt 1)
         then Inr \<lparr>status_code = 200, response_text = [], json_body = Inr (JArr [issue_7]),
                   rate_limit_remaining = Remaining 58\<rparr>
         else Inr \<lparr>status_code = 502, response_text = ''Bad Gateway'',
                   json_body = Inl (JSONDecodeError ''Expecting value: line 1 column 1 (char 0)''),
                   rate_limit_remaining = NoRemaining\<rparr>)
      else if url req = ''https://api.github.com/repos/acme/tool/issues/7/comments''
      then Inr \<lparr>status_code = 200, response_text = [], json_body = Inr (JArr [comment_a]),
                rate_limit_remaining = Remaining 57\<rparr>
      else Inr \<lparr>status_code = 404, response_text = ''Not Found'',
                json_body = Inr (JObj [(''message'', JStr ''Not Found'')]),
                rate_limit_remaining = NoRemaining\<rparr>)"

definition issue_8 :: json where
  "issue_8 = JObj [(''number'', JInt 8), (''title'', JStr ''Slow start'')]"

definition issue_8_with_comments :: json where
  "issue_8_with_comments =
     JObj [(''number'', JInt 8), (''title'', JStr ''Slow start''), (''comments'', JArr [])]"

text \<open>
  Page 1 holds issue 7, page 2 holds issue 8 (which has no comment), and every later
  page of the listing answers 502.
\<close>

definition two_page_remote :: remote where
  "two_page_remote sent req =
     (if url req = ''https://api.github.com/repos/acme/tool/issues'' then
        (if map_of (params req) ''page'' = Some (JInt 1)
         then Inr \<lparr>status_code = 200, response_text = [], json_body = Inr (JArr [issue_7]),
                   rate_limit_remaining = Remaining 58\<rparr>
         else if map_of (params req) ''page'' = Some (JInt 2)
         then Inr \<lparr>status_code = 200, response_text = [], json_body = Inr (JArr [issue_8]),
                   rate_limit_remaining = Remaining 56\<rparr>
         else Inr \<lparr>status_code = 502, response_text = ''Bad Gateway'',
                   json_body = Inl (JSONDecodeError ''Expecting value: line 1 column 1 (char 0)''),
                   rate_limit_remaining = NoRemaining\<rparr>)
      else if url req = ''https://api.github.com/repos/acme/tool/issues/7/comments''
      then Inr \<lparr>status_code = 200, response_text = [], json_body = Inr (JArr [comment_a]),
                rate_limit_remaining = Remaining 57\<rparr>
      else if url req = ''https://api.github.com/repos/acme/tool/issues/8/comments''
      then Inr \<lparr>status_code = 200, response_text = [], json_body = Inr (JArr []),
                rate_limit_remaining = Remaining 55\<rparr>
      else Inr \<lparr>status_code = 404, response_text = ''Not Found'',
                json_body = Inr (JObj [(''message'', JStr ''Not Found'')]),
                rate_limit_remaining = NoRemaining\<rparr>)"

text \<open>A remote that answers every request with an empty page.\<close>

definition empty_remote :: remote where
  "empty_remote sent req =
     Inr \<lparr>status_code = 200, response_text = ''[]'', json_body = Inr (JArr []),
          rate_limit_remaining = Remaining 5000\<rparr>"

definition cache_path :: string where
  "cache_path = ''tasks/github_qa/tool/issue.json''"

definition fresh_world :: world where
  "fresh_world = \<lparr>files = Map.empty, log = []\<rparr>"

definition issues_page :: "nat \<Rightarrow> request" where
  "issues_page n = listing_request None ''acme'' ''tool'' ''issues'' n"

definition comments_of_7 :: request where
  "comments_of_7 =
     \<lparr>url = ''https://api.github.com/repos/acme/tool/issues/7/comments'', params = [],
      headers = []\<rparr>"

definition comments_of_8 :: request where
  "comments_of_8 =
     \<lparr>url = ''https://api.github.com/repos/acme/tool/issues/8/comments'', params = [],
      headers = []\<rparr>"

text \<open>The world after pages 1 and 2 of \<open>two_page_remote\<close> have been fetched and saved.\<close>

definition world_after_page_2 :: world where
  "world_after_page_2 =
     \<lparr>files = [cache_path \<mapsto> Inr (JArr [issue_7_with_comments, issue_8_with_comments])],
      log = [issues_page 1, comments_of_7, issues_page 2, comments_of_8]\<rparr>"

text \<open>The world a fetch from \<open>two_page_remote\<close> leaves.\<close>

definition world_after_failure :: world where
  "world_after_failure =
     \<lparr>files = [cache_path \<mapsto> Inr (JArr [issue_7_with_comments, issue_8_with_comments])],
      log = [issues_page 1, comments_of_7, issues_page 2, comments_of_8, issues_page 3]\<rparr>"

text \<open>The world after page 1 of \<open>sample_remote\<close> has been fetched and saved.\<close>

definition world_after_page_1 :: world where
  "world_after_page_1 =
     \<lparr>files = [cache_path \<mapsto> Inr (JArr [issue_7_with_comments])],
      log = [issues_page 1, comments_of_7]\<rparr>"

text \<open>The world a fetch from \<open>sample_remote\<close> leaves: the cache holds page 1 only.\<close>

definition partial_world :: world where
  "partial_world =
     \<lparr>files = [cache_path \<mapsto> Inr (JArr [issue_7_with_comments])],
      log = [issues_page 1, comments_of_7, issues_page 2]\<rparr>"

text \<open>A cache file cut off in the middle of a write: \<open>json.load\<close> raises on it.\<close>

definition truncated_world :: world where
  "truncated_world =
     \<lparr>files = [cache_path \<mapsto> Inl (JSONDecodeError ''Expecting value: line 9 column 5 (char 120)'')],
      log = []\<rparr>"

text \<open>A file at the cache path that holds the JSON number 5.\<close>

definition number_world :: world where
  "number_world = \<lparr>files = [cache_path \<mapsto> Inr (JInt 5)], log = []\<rparr>"

definition complete_world :: world where
  "complete_world =
     \<lparr>files = [cache_path \<mapsto> Inr (JArr [issue_7_with_comments])], log = []\<rparr>"

section \<open>A sample pull request with more and longer comments than the caps\<close>

definition long_comment :: json where
  "long_comment =
     JObj [(''user'', JObj [(''login'', JStr ''ann'')]),
           (''created_at'', JStr ''2024-05-01T10:00:00Z''),
           (''body'', JStr (replicate 600 CHR ''x''))]"

definition busy_pr :: json where
  "busy_pr =
     JObj [(''number'', JInt 12), (''title'', JStr ''Rework cache''),
           (''comments'', JArr (replicate 12 long_comment))]"

definition long_comment_block :: string where
  "long_comment_block =
     ''    <comment>\<newline>      <author>ann</author>\<newline>''
     @ ''      <created_at>2024-05-01T10:00:00Z</created_at>\<newline>''
     @ ''      <body>'' @ replicate 500 CHR ''x'' @ ''</body>\<newline>''
     @ ''    </comment>\<newline>''"

text \<open>The lines of the sample pull request before its comments, and as an issue.\<close>

definition busy_pr_head :: string where
  "busy_pr_head =
     ''<pull_request number='' @ [CHR 0x22] @ ''12'' @ [CHR 0x22] @ ''>\<newline>''
     @ ''  <title>Rework cache</title>\<newline>''
     @ ''  <state>unknown</state>\<newline>''
     @ ''  <author>unknown</author>\<newline>''
     @ ''  <created_at>unknown</created_at>\<newline>''
     @ ''  <updated_at>unknown</updated_at>\<newline>''
     @ ''  <merged>False</merged>\<newline>''
     @ ''  <body>No description</body>''"

definition busy_issue_head :: string where
  "busy_issue_head =
     ''<issue number='' @ [CHR 0x22] @ ''12'' @ [CHR 0x22] @ ''>\<newline>''
     @ ''  <title>Rework cache</title>\<newline>''
     @ ''  <state>unknown</state>\<newline>''
     @ ''  <author>unknown</author>\<newline>''
     @ ''  <created_at>unknown</created_at>\<newline>''
     @ ''  <updated_at>unknown</updated_at>\<newline>''
     @ ''  <labels></labels>\<newline>''
     @ ''  <body>No description</body>''"

text \<open>A pull request as the issues listing shows it.\<close>

definition pr_among_issues :: json where
  "pr_among_issues =
     JObj [(''number'', JInt 12), (''pull_request'', JObj []),
           (''comments'', JArr (replicate 12 long_comment))]"

section \<open>The decorator\<close>

text \<open>
  C10. The \<open>eval_function\<close> decorator preserves behaviour: for every function \<open>f\<close>
  from runs to results (or exceptions) and every run \<open>r\<close>, the decorated function
  applied to \<open>r\<close> gives what \<open>f\<close> gives on \<open>r\<close>.
\<close>

theorem eval_function_preserves: "eval_function f r = f r"
  by (simp add: eval_function_def)

section \<open>Resolution and scoring: the cases of \<open>evaluate_git_qa\<close>\<close>

lemma float_bound: "(1000::int) < 2 ^ 1024 - 2 ^ 970"
proof -
  have "(2::int) ^ 1024 = 2 ^ 970 * 2 ^ 54"
    by (simp flip: power_add)
  moreover have "(2::int) ^ 54 \<ge> 1001 + 1"
    by simp
  moreover have one: "(2::int) ^ 970 \<ge> 1"
    by simp
  ultimately have "(2::int) ^ 1024 \<ge> 2 ^ 970 * (1001 + 1)"
    by (simp add: mult_left_mono)
  also have "(2::int) ^ 970 * (1001 + 1) = 2 ^ 970 * 1001 + 2 ^ 970"
    by (simp only: distrib_left mult_1_right)
  finally have "(2::int) ^ 1024 - 2 ^ 970 \<ge> 2 ^ 970 * 1001"
    by linarith
  moreover have "(2::int) ^ 970 * 1001 \<ge> 1 * 1001"
    using one by (rule mult_right_mono) simp
  ultimately show ?thesis
    by linarith
qed

lemma small_total_has_float: "\<bar>n\<bar> \<le> 1000 \<Longrightarrow> \<not> float_overflow n"
  using float_bound by (simp add: float_overflow_def)

lemma first_output_file_no_files: "first_output_file no_files env fs = Inr no_answer"
  by (induction fs) (simp_all add: no_files_def path_exists_def no_answer_def)

lemma src_no_files: "get_source_answer no_files d t = Inr (''No source answer found for task '' @ t)"
  by (simp add: get_source_answer_def no_files_def path_exists_def)

lemma evaluate_git_qa_scored:
  assumes "get_source_answer fs d (task_id run) = Inr s"
    and "get_agent_answer fs run = Inr a"
    and "ev (task_id run) s a = Inr er"
    and "\<not> float_overflow (total_score er)"
  shows "evaluate_git_qa fs d ev run =
           Inr \<lparr>score = real_of_int (total_score er) / 100,
                details = success_details er s a (task_id run)\<rparr>"
  using assms by (simp add: evaluate_git_qa_def eval_function_def Let_def normalize_score_def)

lemma evaluate_git_qa_scoring_raised:
  assumes "get_source_answer fs d (task_id run) = Inr s"
    and "get_agent_answer fs run = Inr a"
    and "ev (task_id run) s a = Inl e"
  shows "evaluate_git_qa fs d ev run =
           Inr \<lparr>score = 0, details = failure_details e s a (task_id run)\<rparr>"
  using assms by (simp add: evaluate_git_qa_def eval_function_def Let_def normalize_score_def)

lemma evaluate_git_qa_source_raised:
  assumes "get_source_answer fs d (task_id run) = Inl e"
  shows "evaluate_git_qa fs d ev run = Inl e"
  using assms by (simp add: evaluate_git_qa_def eval_function_def Let_def normalize_score_def)

lemma evaluate_git_qa_agent_raised:
  assumes "get_source_answer fs d (task_id run) = Inr s"
    and "get_agent_answer fs run = Inl e"
  shows "evaluate_git_qa fs d ev run = Inl e"
  using assms by (simp add: evaluate_git_qa_def eval_function_def Let_def normalize_score_def)

lemma src_locked_t2:
  "get_source_answer locked_source_fs ''/bench'' ''t2'' = Inl (OSError ''Permission denied'')"
  by (simp add: get_source_answer_def locked_source_fs_def path_exists_def path_join_def
        read_text_def)

lemma src_locked_t1:
  "get_source_answer locked_source_fs ''/bench'' ''t1''
      = Inr ''No source answer found for task t1''"
  by (simp add: get_source_answer_def locked_source_fs_def path_exists_def path_join_def)

lemma src_locked_t3:
  "get_source_answer locked_source_fs ''/bench'' ''t3''
      = Inr ''No source answer found for task t3''"
  by (simp add: get_source_answer_def locked_source_fs_def path_exists_def path_join_def)

section \<open>The rubric result\<close>

text \<open>
  C1 (amended). For every result the rubric-scoring call produces (with a total that
  converts to a float, so that the success record is built), the evaluator records the
  capability's \<open>total_score\<close> and its four dimension scores unchanged. The total
  equals the sum of the four dimension scores and lies in [0,100] whenever the
  capability's output has each dimension score in [0,25] and reports their sum as the
  total; the evaluator itself checks neither.
\<close>

theorem rubric_total_passthrough:
  assumes "get_source_answer fs d (task_id run) = Inr s"
    and "get_agent_answer fs run = Inr a"
    and "ev (task_id run) s a = Inr er"
    and "\<not> float_overflow (total_score er)"
  shows "\<exists>r. evaluate_git_qa fs d ev run = Inr r
           \<and> map_of (details r) ''total_score'' = Some (JInt (total_score er))
           \<and> map_of (details r) ''pattern_recognition'' = Some (JInt (pattern_recognition er))
           \<and> map_of (details r) ''specific_evidence'' = Some (JInt (specific_evidence er))
           \<and> map_of (details r) ''root_cause_analysis'' = Some (JInt (root_cause_analysis er))
           \<and> map_of (details r) ''actionable_insights'' = Some (JInt (actionable_insights er))
           \<and> (dimensions_in_range er
                \<and> total_score er = pattern_recognition er + specific_evidence er
                                     + root_cause_analysis er + actionable_insights er
               \<longrightarrow> rubric_invariant er)"
proof -
  have "evaluate_git_qa fs d ev run =
          Inr \<lparr>score = real_of_int (total_score er) / 100,
               details = success_details er s a (task_id run)\<rparr>"
    using assms by (rule evaluate_git_qa_scored)
  moreover have "dimensions_in_range er
                \<and> total_score er = pattern_recognition er + specific_evidence er
                                     + root_cause_analysis er + actionable_insights er
               \<longrightarrow> rubric_invariant er"
    by (simp add: dimensions_in_range_def rubric_invariant_def)
  ultimately show ?thesis
    by (simp add: success_details_def)
qed

text \<open>The amended C1 at a run with no answer files and a capability returning 20+15+15+10 = 60.\<close>

theorem rubric_total_passthrough_witness:
  "\<exists>r. evaluate_git_qa no_files ''/bench'' flaky_evaluator sample_run = Inr r
       \<and> map_of (details r) ''total_score'' = Some (JInt 60)
       \<and> map_of (details r) ''pattern_recognition'' = Some (JInt 20)
       \<and> map_of (details r) ''specific_evidence'' = Some (JInt 15)
       \<and> map_of (details r) ''root_cause_analysis'' = Some (JInt 15)
       \<and> map_of (details r) ''actionable_insights'' = Some (JInt 10)
       \<and> rubric_invariant fair_result"
proof -
  have s: "get_source_answer no_files ''/bench'' (task_id sample_run)
             = Inr ''No source answer found for task t1''"
    by (simp add: src_no_files sample_run_def)
  have a: "get_agent_answer no_files sample_run = Inr no_answer"
    by (simp add: get_agent_answer_def sample_run_def first_output_file_no_files)
  have e: "flaky_evaluator (task_id sample_run) ''No source answer found for task t1'' no_answer
             = Inr fair_result"
    by (simp add: flaky_evaluator_def sample_run_def)
  have ok: "dimensions_in_range fair_result
              \<and> total_score fair_result = pattern_recognition fair_result
                    + specific_evidence fair_result + root_cause_analysis fair_result
                    + actionable_insights fair_result"
    by (simp add: dimensions_in_range_def fair_result_def)
  show ?thesis
    using rubric_total_passthrough
            [of no_files "''/bench''" sample_run "''No source answer found for task t1''"
                no_answer flaky_evaluator fair_result] s a e ok
          small_total_has_float [of "total_score fair_result"]
    by (simp add: fair_result_def)
qed

text \<open>
  C1, as stated, fails. The capability may return a record whose \<open>total_score\<close> is 150
  while its four dimension scores are 0; the evaluator records that total and derives
  the score 1.5 from it. Nothing in \<open>EvaluationResult\<close> or in \<open>evaluate_git_qa\<close>
  compares the total with the dimension scores or with a range.
\<close>

theorem rubric_total_counterexample:
  "evaluate_git_qa no_files ''/bench'' inflated_evaluator sample_run =
     Inr \<lparr>score = 3 / 2,
          details = success_details inflated_result ''No source answer found for task t1''
                      no_answer ''t1''\<rparr>
   \<and> map_of (success_details inflated_result ''No source answer found for task t1''
               no_answer ''t1'') ''total_score'' = Some (JInt 150)
   \<and> \<not> rubric_invariant inflated_result"
  apply (intro conjI)
  subgoal by (simp add: Let_def evaluate_git_qa_def eval_function_def sample_run_def src_no_files get_agent_answer_def first_output_file_no_files inflated_evaluator_def inflated_result_def no_answer_def normalize_score_def small_total_has_float)
  subgoal by (simp add: success_details_def inflated_result_def)
  subgoal by (simp add: rubric_invariant_def inflated_result_def)
  done

section \<open>The normalized score\<close>

text \<open>
  C2 (amended). For every evaluation in which the rubric-scoring call returns a result
  whose \<open>total_score\<close> converts to a float, the score of the returned \<open>EvalResult\<close>
  equals \<open>total_score / 100\<close>, and the score lies in [0,1] exactly when
  \<open>total_score\<close> lies in [0,100]. A \<open>total_score\<close> too large for a float makes the
  division raise inside the \<open>try\<close> block and gives the failure result with score 0.0.
\<close>

theorem normalized_score_exact:
  assumes "get_source_answer fs d (task_id run) = Inr s"
    and "get_agent_answer fs run = Inr a"
    and "ev (task_id run) s a = Inr er"
  shows "\<exists>r. evaluate_git_qa fs d ev run = Inr r
           \<and> (\<not> float_overflow (total_score er) \<longrightarrow>
                score r = real_of_int (total_score er) / 100
                \<and> (0 \<le> score r \<and> score r \<le> 1
                     \<longleftrightarrow> 0 \<le> total_score er \<and> total_score er \<le> 100))
           \<and> (float_overflow (total_score er) \<longrightarrow>
                score r = 0
                \<and> map_of (details r) ''error'' = Some (JStr ''int too large to convert to float''))"
proof (cases "float_overflow (total_score er)")
  case True
  with assms have "evaluate_git_qa fs d ev run =
          Inr \<lparr>score = 0,
               details = failure_details (OverflowError ''int too large to convert to float'')
                           s a (task_id run)\<rparr>"
    by (simp add: evaluate_git_qa_def eval_function_def Let_def normalize_score_def)
  with True show ?thesis
    by (simp add: failure_details_def)
next
  case False
  with assms have "evaluate_git_qa fs d ev run =
          Inr \<lparr>score = real_of_int (total_score er) / 100,
               details = success_details er s a (task_id run)\<rparr>"
    by (rule evaluate_git_qa_scored)
  with False show ?thesis
    by simp
qed

text \<open>
  The amended C2 at a total of 60, where the score is 3/5, and at a total of
  \<open>2^1024\<close>, where the division raises.
\<close>

theorem normalized_score_exact_witness:
  "\<not> float_overflow (total_score fair_result)
   \<and> (\<exists>r. evaluate_git_qa no_files ''/bench'' flaky_evaluator sample_run = Inr r
         \<and> score r = 3 / 5 \<and> 0 \<le> score r \<and> score r \<le> 1)
   \<and> float_overflow (total_score huge_result)
   \<and> (\<exists>r. evaluate_git_qa no_files ''/bench'' huge_evaluator sample_run = Inr r
         \<and> score r = 0
         \<and> map_of (details r) ''error'' = Some (JStr ''int too large to convert to float''))"
proof -
  have s: "get_source_answer no_files ''/bench'' (task_id sample_run)
             = Inr ''No source answer found for task t1''"
    by (simp add: src_no_files sample_run_def)
  have a: "get_agent_answer no_files sample_run = Inr no_answer"
    by (simp add: get_agent_answer_def sample_run_def first_output_file_no_files)
  have e: "flaky_evaluator (task_id sample_run) ''No source answer found for task t1'' no_answer
             = Inr fair_result"
    by (simp add: flaky_evaluator_def sample_run_def)
  have h: "huge_evaluator (task_id sample_run) ''No source answer found for task t1'' no_answer
             = Inr huge_result"
    by (simp add: huge_evaluator_def)
  have small: "\<not> float_overflow (total_score fair_result)"
    by (rule small_total_has_float) (simp add: fair_result_def)
  have huge: "float_overflow (total_score huge_result)"
    by (simp add: huge_result_def float_overflow_def)
  from normalized_score_exact
         [of no_files "''/bench''" sample_run "''No source answer found for task t1''"
             no_answer flaky_evaluator fair_result] s a e small
  have first: "\<exists>r. evaluate_git_qa no_files ''/bench'' flaky_evaluator sample_run = Inr r
         \<and> score r = 3 / 5 \<and> 0 \<le> score r \<and> score r \<le> 1"
    by (simp add: fair_result_def)
  from normalized_score_exact
         [of no_files "''/bench''" sample_run "''No source answer found for task t1''"
             no_answer huge_evaluator huge_result] s a h huge
  have second: "\<exists>r. evaluate_git_qa no_files ''/bench'' huge_evaluator sample_run = Inr r
         \<and> score r = 0
         \<and> map_of (details r) ''error'' = Some (JStr ''int too large to convert to float'')"
    by simp
  from small first huge second show ?thesis
    by simp
qed

text \<open>
  C2, as stated, fails in its range part: a capability output with \<open>total_score = -5\<close>
  gives the score \<open>-0.05\<close>, which is below 0.
\<close>

theorem normalized_score_counterexample:
  "evaluate_git_qa no_files ''/bench'' negative_evaluator sample_run =
     Inr \<lparr>score = - (1 / 20),
          details = success_details negative_result ''No source answer found for task t1''
                      no_answer ''t1''\<rparr>
   \<and> \<not> (0 \<le> - (1 / 20 :: real))"
  by (simp add: Let_def evaluate_git_qa_def eval_function_def sample_run_def src_no_files
        get_agent_answer_def first_output_file_no_files negative_evaluator_def
        negative_result_def fair_result_def normalize_score_def small_total_has_float)

section \<open>Which exceptions the evaluator catches\<close>

text \<open>
  C3 (amended). An exception raised by the rubric-scoring call is caught inside the
  evaluator, which returns an \<open>EvalResult\<close> with score 0.0 and an \<open>error\<close> detail
  holding the exception's text. An exception raised while reading the reference-answer
  file or the candidate-answer file is raised before the \<open>try\<close> block and propagates
  to the caller of the evaluator.
\<close>

theorem evaluator_exception_boundary:
  "(get_source_answer fs d (task_id run) = Inr s \<and> get_agent_answer fs run = Inr a
      \<and> ev (task_id run) s a = Inl e
     \<longrightarrow> (\<exists>r. evaluate_git_qa fs d ev run = Inr r \<and> score r = 0
               \<and> map_of (details r) ''error'' = Some (JStr (exc_str e))))
   \<and> (get_source_answer fs d (task_id run) = Inl e \<longrightarrow> evaluate_git_qa fs d ev run = Inl e)
   \<and> (get_source_answer fs d (task_id run) = Inr s \<and> get_agent_answer fs run = Inl e
     \<longrightarrow> evaluate_git_qa fs d ev run = Inl e)"
  by (simp add: evaluate_git_qa_scoring_raised evaluate_git_qa_source_raised
        evaluate_git_qa_agent_raised failure_details_def)

text \<open>
  The three parts of the amended C3: the capability raises for task \<open>t3\<close>; the
  reference answer of \<open>t2\<close> cannot be read; the candidate answer file is a directory.
\<close>

theorem evaluator_exception_boundary_witness:
  "(\<exists>r. evaluate_git_qa no_files ''/bench'' flaky_evaluator run_t3 = Inr r \<and> score r = 0
        \<and> map_of (details r) ''error'' = Some (JStr ''model overloaded''))
   \<and> evaluate_git_qa locked_source_fs ''/bench'' flaky_evaluator run_t2
        = Inl (OSError ''Permission denied'')
   \<and> evaluate_git_qa locked_answer_fs ''/bench'' flaky_evaluator run_with_answer
        = Inl (OSError ''Is a directory'')"
proof -
  have s3: "get_source_answer no_files ''/bench'' (task_id run_t3)
              = Inr ''No source answer found for task t3''"
    by (simp add: src_no_files run_t3_def)
  have a3: "get_agent_answer no_files run_t3 = Inr no_answer"
    by (simp add: get_agent_answer_def run_t3_def first_output_file_no_files)
  have e3: "flaky_evaluator (task_id run_t3) ''No source answer found for task t3'' no_answer
              = Inl (GenerationError ''model overloaded'')"
    by (simp add: flaky_evaluator_def run_t3_def)
  have s2: "get_source_answer locked_source_fs ''/bench'' (task_id run_t2)
              = Inl (OSError ''Permission denied'')"
    by (simp add: src_locked_t2 run_t2_def)
  have s1: "get_source_answer locked_answer_fs ''/bench'' (task_id run_with_answer)
              = Inr ''No source answer found for task t1''"
    by (simp add: get_source_answer_def locked_answer_fs_def path_exists_def path_join_def
          run_with_answer_def sample_run_def)
  have a1: "get_agent_answer locked_answer_fs run_with_answer = Inl (OSError ''Is a directory'')"
    by (simp add: get_agent_answer_def run_with_answer_def sample_run_def locked_answer_fs_def
          path_exists_def read_text_def)
  have b3: "\<exists>r. evaluate_git_qa no_files ''/bench'' flaky_evaluator run_t3 = Inr r \<and> score r = 0
        \<and> map_of (details r) ''error'' = Some (JStr (exc_str (GenerationError ''model overloaded'')))"
    using evaluator_exception_boundary
            [of no_files "''/bench''" run_t3 "''No source answer found for task t3''" no_answer
                flaky_evaluator "GenerationError ''model overloaded''"]
          s3 a3 e3 by blast
  have b2: "evaluate_git_qa locked_source_fs ''/bench'' flaky_evaluator run_t2
        = Inl (OSError ''Permission denied'')"
    using evaluator_exception_boundary
            [of locked_source_fs "''/bench''" run_t2 _ _ flaky_evaluator "OSError ''Permission denied''"]
          s2 by blast
  have b1: "evaluate_git_qa locked_answer_fs ''/bench'' flaky_evaluator run_with_answer
        = Inl (OSError ''Is a directory'')"
    using evaluator_exception_boundary
            [of locked_answer_fs "''/bench''" run_with_answer
                "''No source answer found for task t1''" _ flaky_evaluator "OSError ''Is a directory''"]
          s1 a1 by blast
  from b3 b2 b1 show ?thesis by simp
qed

text \<open>
  C3, as stated, fails for answer resolution: when the reference-answer file of the
  task exists and reading it raises, \<open>evaluate_git_qa\<close> raises that exception and
  returns no \<open>EvalResult\<close>.
\<close>

theorem resolution_exception_counterexample:
  "evaluate_git_qa locked_source_fs ''/bench'' flaky_evaluator run_t2
     = Inl (OSError ''Permission denied'')"
  by (simp add: evaluate_git_qa_def eval_function_def Let_def run_t2_def src_locked_t2)

section \<open>The sweep\<close>

lemma agent_locked_source:
  "get_agent_answer locked_source_fs
     \<lparr>task_id = t, task = q, env_path = ''./envs/t1'', agent_answer_path = None,
      source_answer_path = None\<rparr> = Inr no_answer"
  "get_agent_answer locked_source_fs
     \<lparr>task_id = t, task = q, env_path = ''./envs/t3'', agent_answer_path = None,
      source_answer_path = None\<rparr> = Inr no_answer"
  by (simp_all add: get_agent_answer_def output_files_def path_exists_def locked_source_fs_def
        path_join_def no_answer_def)

lemma sweep_loop_rows:
  "sweep_loop fs d ev env tds acc =
     acc @ map (\<lambda>td. case evaluate_task fs d ev td env None of
                        Inr result \<Rightarrow> \<lparr>row_task_id = td_task_id td, row_score = score result,
                                        row_details = Some (details result), row_error = None\<rparr>
                      | Inl e \<Rightarrow> \<lparr>row_task_id = td_task_id td, row_score = 0,
                                   row_details = None, row_error = Some (exc_str e)\<rparr>) tds"
  by (induction tds arbitrary: acc) (simp_all split: sum.splits)

lemma valid_rows:
  "filter (\<lambda>r. row_error r = None)
     (map (\<lambda>td. case f td of
                   Inr result \<Rightarrow> \<lparr>row_task_id = td_task_id td, row_score = score result,
                                   row_details = Some (details result), row_error = None\<rparr>
                 | Inl e \<Rightarrow> \<lparr>row_task_id = td_task_id td, row_score = 0,
                              row_details = None, row_error = Some (exc_str e)\<rparr>) tds)
   = map (\<lambda>td. \<lparr>row_task_id = td_task_id td, row_score = score (projr (f td)),
                  row_details = Some (details (projr (f td))), row_error = None\<rparr>)
       (filter (\<lambda>td. \<not> isl (f td)) tds)"
  by (induction tds) (auto split: sum.splits)

text \<open>
  C8. In a sweep, every exception that \<open>evaluate_task\<close> raises for one task is caught
  for that task alone and recorded as a row with score 0.0 and the exception's text
  under \<open>error\<close>; every task for which \<open>evaluate_task\<close> returns gets a row with the
  returned score and details. \<open>tasks_evaluated\<close> is the number of tasks for which
  \<open>evaluate_task\<close> returned, \<open>average_score\<close> is the arithmetic mean of their scores
  (0.0 when there is none), and tasks whose evaluation raised enter neither the sum nor
  the count. A task whose scoring failure \<open>evaluate_git_qa\<close> caught itself has
  returned, with score 0.0, and is counted among the scored tasks.
\<close>

theorem sweep_summary:
  assumes "sweep fs d ev env tds = (sm, rows)"
  shows "length rows = length tds
     \<and> (\<forall>i < length tds.
          (\<forall>e. evaluate_task fs d ev (tds ! i) env None = Inl e \<longrightarrow>
             rows ! i = \<lparr>row_task_id = td_task_id (tds ! i), row_score = 0,
                         row_details = None, row_error = Some (exc_str e)\<rparr>)
        \<and> (\<forall>r. evaluate_task fs d ev (tds ! i) env None = Inr r \<longrightarrow>
             rows ! i = \<lparr>row_task_id = td_task_id (tds ! i), row_score = score r,
                         row_details = Some (details r), row_error = None\<rparr>))
     \<and> tasks_evaluated sm
         = length (filter (\<lambda>td. \<not> isl (evaluate_task fs d ev td env None)) tds)
     \<and> average_score sm
         = (if filter (\<lambda>td. \<not> isl (evaluate_task fs d ev td env None)) tds = [] then 0
            else sum_list (map (\<lambda>td. score (projr (evaluate_task fs d ev td env None)))
                            (filter (\<lambda>td. \<not> isl (evaluate_task fs d ev td env None)) tds))
                 / real (length (filter (\<lambda>td. \<not> isl (evaluate_task fs d ev td env None)) tds)))
     \<and> total_tasks sm = length tds"
proof -
  let ?f = "\<lambda>td. evaluate_task fs d ev td env None"
  let ?row = "\<lambda>td. case ?f td of
                        Inr result \<Rightarrow> \<lparr>row_task_id = td_task_id td, row_score = score result,
                                        row_details = Some (details result), row_error = None\<rparr>
                      | Inl e \<Rightarrow> \<lparr>row_task_id = td_task_id td, row_score = 0,
                                   row_details = None, row_error = Some (exc_str e)\<rparr>"
  have rows: "rows = map ?row tds"
    using assms by (simp add: sweep_def Let_def sweep_loop_rows)
  have valid: "map row_score (filter (\<lambda>r. row_error r = None) rows)
                 = map (\<lambda>td. score (projr (?f td))) (filter (\<lambda>td. \<not> isl (?f td)) tds)"
    unfolding rows valid_rows by (simp add: comp_def)
  have sm: "sm = \<lparr>average_score =
                    (if map row_score (filter (\<lambda>r. row_error r = None) rows) \<noteq> []
                     then sum_list (map row_score (filter (\<lambda>r. row_error r = None) rows))
                            / real (length (map row_score (filter (\<lambda>r. row_error r = None) rows)))
                     else 0),
                  tasks_evaluated = length (map row_score (filter (\<lambda>r. row_error r = None) rows)),
                  total_tasks = length tds\<rparr>"
    using assms by (auto simp add: sweep_def Let_def sweep_loop_rows rows)
  have len: "length rows = length tds"
    by (simp add: rows)
  have each: "\<forall>i < length tds.
          (\<forall>e. ?f (tds ! i) = Inl e \<longrightarrow>
             rows ! i = \<lparr>row_task_id = td_task_id (tds ! i), row_score = 0,
                         row_details = None, row_error = Some (exc_str e)\<rparr>)
        \<and> (\<forall>r. ?f (tds ! i) = Inr r \<longrightarrow>
             rows ! i = \<lparr>row_task_id = td_task_id (tds ! i), row_score = score r,
                         row_details = Some (details r), row_error = None\<rparr>)"
    by (simp add: rows)
  have n: "tasks_evaluated sm = length (filter (\<lambda>td. \<not> isl (?f td)) tds)"
    unfolding sm valid by simp
  have avg: "average_score sm
         = (if filter (\<lambda>td. \<not> isl (?f td)) tds = [] then 0
            else sum_list (map (\<lambda>td. score (projr (?f td))) (filter (\<lambda>td. \<not> isl (?f td)) tds))
                 / real (length (filter (\<lambda>td. \<not> isl (?f td)) tds)))"
    unfolding sm valid by simp
  have tot: "total_tasks sm = length tds"
    unfolding sm by simp
  from len each n avg tot show ?thesis by blast
qed

lemma sample_outcomes:
  "evaluate_task locked_source_fs ''/bench'' flaky_evaluator \<lparr>td_task_id = ''t1'', td_task = ''q1''\<rparr> None None
     = Inr \<lparr>score = 3 / 5,
            details = success_details fair_result ''No source answer found for task t1'' no_answer ''t1''\<rparr>"
  "evaluate_task locked_source_fs ''/bench'' flaky_evaluator \<lparr>td_task_id = ''t2'', td_task = ''q2''\<rparr> None None
     = Inl (OSError ''Permission denied'')"
  "evaluate_task locked_source_fs ''/bench'' flaky_evaluator \<lparr>td_task_id = ''t3'', td_task = ''q3''\<rparr> None None
     = Inr \<lparr>score = 0,
            details = failure_details (GenerationError ''model overloaded'')
                        ''No source answer found for task t3'' no_answer ''t3''\<rparr>"
  by (simp_all add: evaluate_task_def evaluate_git_qa_def eval_function_def Let_def
        src_locked_t1 src_locked_t2 src_locked_t3 agent_locked_source flaky_evaluator_def
        normalize_score_def small_total_has_float
        fair_result_def)

text \<open>
  Three tasks: \<open>t1\<close> scores 0.6, the reference answer of \<open>t2\<close> cannot be read, and
  the capability raises for \<open>t3\<close>. The sweep ends with two tasks evaluated and the
  average (0.6 + 0.0) / 2.
\<close>

theorem sweep_summary_witness:
  "length (snd (sweep locked_source_fs ''/bench'' flaky_evaluator None sample_tasks)) = 3
   \<and> row_score (snd (sweep locked_source_fs ''/bench'' flaky_evaluator None sample_tasks) ! 0)
       = 3 / 5
   \<and> snd (sweep locked_source_fs ''/bench'' flaky_evaluator None sample_tasks) ! 1
       = \<lparr>row_task_id = ''t2'', row_score = 0, row_details = None,
          row_error = Some ''Permission denied''\<rparr>
   \<and> tasks_evaluated (fst (sweep locked_source_fs ''/bench'' flaky_evaluator None sample_tasks)) = 2
   \<and> average_score (fst (sweep locked_source_fs ''/bench'' flaky_evaluator None sample_tasks)) = 3 / 10
   \<and> total_tasks (fst (sweep locked_source_fs ''/bench'' flaky_evaluator None sample_tasks)) = 3"
proof -
  have eq: "sweep locked_source_fs ''/bench'' flaky_evaluator None sample_tasks
              = (fst (sweep locked_source_fs ''/bench'' flaky_evaluator None sample_tasks),
                 snd (sweep locked_source_fs ''/bench'' flaky_evaluator None sample_tasks))"
    by simp
  have t1: "sample_tasks ! 0 = \<lparr>td_task_id = ''t1'', td_task = ''q1''\<rparr>" "(0::nat) < length sample_tasks"
    by (simp_all add: sample_tasks_def)
  have t2: "sample_tasks ! 1 = \<lparr>td_task_id = ''t2'', td_task = ''q2''\<rparr>" "(1::nat) < length sample_tasks"
    by (simp_all add: sample_tasks_def)
  note S = sweep_summary [OF eq]
  from S have "length (snd (sweep locked_source_fs ''/bench'' flaky_evaluator None sample_tasks)) = 3"
    by (simp add: sample_tasks_def)
  moreover from S t1 have "row_score (snd (sweep locked_source_fs ''/bench'' flaky_evaluator None sample_tasks) ! 0)
       = 3 / 5"
    using sample_outcomes(1)
    by (metis EvalResult.select_convs(1) result_row.select_convs(2))
  moreover from S t2 have "snd (sweep locked_source_fs ''/bench'' flaky_evaluator None sample_tasks) ! 1
       = \<lparr>row_task_id = ''t2'', row_score = 0, row_details = None,
          row_error = Some ''Permission denied''\<rparr>"
    using sample_outcomes(2) by (metis exc_str.simps(1) task_data.select_convs(1))
  moreover from S have "tasks_evaluated (fst (sweep locked_source_fs ''/bench'' flaky_evaluator None sample_tasks)) = 2"
    by (simp add: sample_tasks_def sample_outcomes)
  moreover from S have "average_score (fst (sweep locked_source_fs ''/bench'' flaky_evaluator None sample_tasks)) = 3 / 10"
    by (simp add: sample_tasks_def sample_outcomes)
  moreover from S have "total_tasks (fst (sweep locked_source_fs ''/bench'' flaky_evaluator None sample_tasks)) = 3"
    by (simp add: sample_tasks_def)
  ultimately show ?thesis by blast
qed

section \<open>Failures of the two generation capabilities\<close>

lemma generation_input_empty:
  "generation_input tt td (JArr []) (JArr []) (JArr []) repo n =
     Inr \<lparr>task_type = tt, task_type_description = td, pull_requests = [], issues = [],
          examples = examples_header, repo_name = repo, num_tasks = n\<rparr>"
  by (simp add: generation_input_def bind_exc_def)

text \<open>
  C4 (amended). A failure raised by the deduplication capability is handled like a
  failure raised by the synthesis capability: once the context is rendered, either one
  is caught by the handler of \<open>generate_tasks_for_type\<close> and yields an empty task
  sequence; neither propagates to the caller.
\<close>

theorem capability_failures_swallowed:
  assumes "generation_input tt td prs iss exs repo n = Inr inp"
    and "gen inp = Inl e \<or> (\<exists>result. gen inp = Inr result \<and> dedup (tasks result) = Inl e)"
  shows "generate_tasks_for_type gen dedup tt td prs iss exs repo n = Inr []"
  using assms by (auto simp add: generate_tasks_for_type_def bind_exc_def)

text \<open>Both cases of the amended C4: the generator raises; the deduplicator raises.\<close>

theorem capability_failures_swallowed_witness:
  "generate_tasks_for_type failing_generator failing_deduplicator ''bug_patterns''
     ''Tests pattern recognition'' (JArr []) (JArr []) (JArr []) ''dspy'' 10 = Inr []
   \<and> generate_tasks_for_type two_task_generator failing_deduplicator ''bug_patterns''
     ''Tests pattern recognition'' (JArr []) (JArr []) (JArr []) ''dspy'' 10 = Inr []"
proof -
  have g: "failing_generator inp = Inl (GenerationError ''generation timed out'')" for inp
    by (simp add: failing_generator_def)
  have d: "\<exists>result. two_task_generator inp = Inr result
             \<and> failing_deduplicator (tasks result) = Inl (GenerationError ''deduplication timed out'')" for inp
    by (simp add: two_task_generator_def failing_deduplicator_def)
  show ?thesis
    using capability_failures_swallowed [OF generation_input_empty, where gen = failing_generator
            and e = "GenerationError ''generation timed out''" and dedup = failing_deduplicator]
          capability_failures_swallowed [OF generation_input_empty, where gen = two_task_generator
            and e = "GenerationError ''deduplication timed out''" and dedup = failing_deduplicator]
          g d by blast
qed

text \<open>
  C4, as stated, fails. The deduplication capability is called inside the same \<open>try\<close>
  block as the generator, in the only function that calls it. When the generator
  returns two tasks and the deduplication capability raises, \<open>generate_tasks_for_type\<close>
  returns the empty list: the failure does not reach its caller.
\<close>

theorem deduplication_failure_counterexample:
  "generate_tasks_for_type two_task_generator failing_deduplicator ''bug_patterns''
     ''Tests pattern recognition'' (JArr []) (JArr []) (JArr []) ''dspy'' 10 = Inr []"
  by (simp add: generate_tasks_for_type_def generation_input_empty bind_exc_def
        two_task_generator_def failing_deduplicator_def)

section \<open>Fetching: the paging loop\<close>

lemma sample_first_page:
  "fetch_page sample_remote None ''acme'' ''tool'' ''issues'' cache_path True (Suc 0) []
     fresh_world = (Next [issue_7_with_comments], world_after_page_1)"
  by (simp add: fetch_page_def requests_get_def listing_request_def auth_headers_def
        sample_remote_def fresh_world_def issue_7_def fetch_comments_def str_int_def
        world_after_page_1_def issues_page_def comments_of_7_def issue_7_with_comments_def
        Let_def)

lemma sample_second_page:
  "sample_remote (log world_after_page_1)
       (listing_request None ''acme'' ''tool'' ''issues'' (Suc 1))
     = Inr \<lparr>status_code = 502, response_text = ''Bad Gateway'',
                   json_body = Inl (JSONDecodeError ''Expecting value: line 1 column 1 (char 0)''),
                   rate_limit_remaining = NoRemaining\<rparr>"
  by (simp add: sample_remote_def listing_request_def)

text \<open>
  A pass whose page is received, in the words of the specification, is a pass of the
  loop that goes on: it appends the items of the page to the items accumulated so far
  and writes all of them to the cache file.
\<close>

lemma fetch_page_received:
  assumes "page_received api tok owner repo dt flag n w = Some (items, w2)"
  shows "fetch_page api tok owner repo dt p flag n all_items w
           = (Next (all_items @ items),
              w2\<lparr>files := (files w2)(p \<mapsto> Inr (JArr (all_items @ items)))\<rparr>)"
  using assms
  by (auto simp add: page_received_def fetch_page_def requests_get_def quota_left_def Let_def
        split: sum.splits json.splits if_splits prod.splits remaining_header.splits)

text \<open>
  Conversely, a pass that goes on after a listing response whose body is a JSON array
  has received that page: every run that reaches page \<open>k + 1\<close> against a remote
  whose listing bodies are arrays has received pages 1 to \<open>k\<close>.
\<close>

lemma fetch_page_next:
  assumes "fetch_page api tok owner repo dt p flag n all_items w = (Next acc, w')"
    and "api (log w) (listing_request tok owner repo dt n) = Inr resp"
    and "json_body resp = Inr (JArr body)"
  shows "\<exists>items w2. page_received api tok owner repo dt flag n w = Some (items, w2)
           \<and> acc = all_items @ items
           \<and> w' = w2\<lparr>files := (files w2)(p \<mapsto> Inr (JArr (all_items @ items)))\<rparr>"
  using assms
  by (auto simp add: page_received_def fetch_page_def requests_get_def quota_left_def Let_def
        split: sum.splits json.splits if_splits prod.splits remaining_header.splits)

text \<open>
  After \<open>k\<close> pages received, the loop started at page 1 is the loop at page \<open>k + 1\<close>
  with the items of these pages, concatenated in page order, accumulated.
\<close>

lemma paging_loop_received:
  "pages_received api tok owner repo dt p flag k w0 = Some (pages, w) \<Longrightarrow>
     paging_loop api tok owner repo dt p flag 1 [] w0
       = paging_loop api tok owner repo dt p flag (Suc k) (concat pages) w"
proof (induction k arbitrary: pages w)
  case 0
  then show ?case by simp
next
  case (Suc k)
  from Suc.prems obtain pages' w1 items w2 where
    prev: "pages_received api tok owner repo dt p flag k w0 = Some (pages', w1)" and
    page: "page_received api tok owner repo dt flag (Suc k) w1 = Some (items, w2)" and
    pages: "pages = pages' @ [items]" and
    w: "w = w2\<lparr>files := (files w2)(p \<mapsto> Inr (JArr (concat (pages' @ [items]))))\<rparr>"
    by (auto split: option.splits prod.splits)
  have "paging_loop api tok owner repo dt p flag 1 [] w0
          = paging_loop api tok owner repo dt p flag (Suc k) (concat pages') w1"
    using Suc.IH [OF prev] .
  also have "\<dots> = paging_loop api tok owner repo dt p flag (Suc (Suc k)) (concat pages) w"
    by (subst paging_loop.simps) (simp add: fetch_page_received [OF page] pages w)
  finally show ?case .
qed

lemma pages_received_length:
  "pages_received api tok owner repo dt p flag k w0 = Some (pages, w) \<Longrightarrow> length pages = k"
  by (induction k arbitrary: pages w) (auto split: option.splits prod.splits)

text \<open>A listing response whose status is not 200 ends the loop with the items it holds.\<close>

lemma paging_loop_failure:
  assumes "api (log w) (listing_request tok owner repo dt page) = Inr resp"
    and "status_code resp \<noteq> 200"
  shows "paging_loop api tok owner repo dt p flag page all_items w
           = Some (Inr (JArr all_items), w\<lparr>log := log w @ [listing_request tok owner repo dt page]\<rparr>)"
  using assms
  by (subst paging_loop.simps) (simp add: fetch_page_def requests_get_def)

text \<open>
  Attaching comments keeps the items of a page in number and order; each item is as the
  page body has it, or the same dict with the key \<open>comments\<close> set.
\<close>

lemma comments_for_items_shape:
  "comments_for_items api owner repo dt hdrs items w = (Inr items', w') \<Longrightarrow>
     list_all2 (\<lambda>item item'. item' = item
                  \<or> (\<exists>kvs comments. item = JObj kvs
                        \<and> item' = JObj (dict_set kvs ''comments'' comments))) items items'"
proof (induction items arbitrary: items' w w')
  case Nil
  then show ?case by simp
next
  case (Cons item rest)
  then show ?case
    by (auto split: sum.splits if_splits prod.splits json.splits)
qed

text \<open>
  C6. In a fetch run that finds no cache file, let the remote have answered the listing
  requests for pages 1 to \<open>k\<close> with status 200, a non-empty JSON array and quota left, so
  that \<open>pages\<close> holds, page by page, the items of these response bodies (with their
  comments attached when comments are fetched); if the listing request for page
  \<open>k + 1\<close> then gets a response whose status is not 200, the fetch returns exactly
  the items of pages 1 to \<open>k\<close>, concatenated in page order. The request log ends with
  that one failed request: it is not sent again and nothing is requested after it. The
  cache file stays as the pages before the failure left it.
\<close>

theorem listing_failure_stops_fetch:
  assumes "files w0 p = None"
    and "pages_received api tok owner repo dt p flag k w0 = Some (pages, w)"
    and "api (log w) (listing_request tok owner repo dt (Suc k)) = Inr resp"
    and "status_code resp \<noteq> 200"
  shows "fetch_github_data api tok owner repo dt p flag w0
           = Some (Inr (JArr (concat pages)),
                   w\<lparr>log := log w @ [listing_request tok owner repo dt (Suc k)]\<rparr>)
         \<and> length pages = k"
proof -
  have "fetch_github_data api tok owner repo dt p flag w0
          = paging_loop api tok owner repo dt p flag 1 [] w0"
    using assms(1) by (simp add: fetch_github_data_def)
  also have "\<dots> = paging_loop api tok owner repo dt p flag (Suc k) (concat pages) w"
    using assms(2) by (rule paging_loop_received)
  also have "\<dots> = Some (Inr (JArr (concat pages)),
                   w\<lparr>log := log w @ [listing_request tok owner repo dt (Suc k)]\<rparr>)"
    using assms(3,4) by (rule paging_loop_failure)
  finally show ?thesis
    using pages_received_length [OF assms(2)] by simp
qed

text \<open>The two pages of \<open>two_page_remote\<close>, each with one issue, as they are received.\<close>

lemma two_pages_first:
  "page_received two_page_remote None ''acme'' ''tool'' ''issues'' True (Suc 0) fresh_world
     = Some ([issue_7_with_comments],
             \<lparr>files = Map.empty, log = [issues_page 1, comments_of_7]\<rparr>)"
  by (simp add: page_received_def quota_left_def listing_request_def auth_headers_def
        two_page_remote_def fresh_world_def issue_7_def fetch_comments_def str_int_def
        requests_get_def issues_page_def comments_of_7_def issue_7_with_comments_def Let_def)

lemma two_pages_second:
  "page_received two_page_remote None ''acme'' ''tool'' ''issues'' True (Suc (Suc 0))
     world_after_page_1
     = Some ([issue_8_with_comments],
             \<lparr>files = [cache_path \<mapsto> Inr (JArr [issue_7_with_comments])],
              log = [issues_page 1, comments_of_7, issues_page 2, comments_of_8]\<rparr>)"
  by (simp add: page_received_def quota_left_def listing_request_def auth_headers_def
        two_page_remote_def world_after_page_1_def issue_8_def fetch_comments_def str_int_def
        requests_get_def issues_page_def comments_of_7_def comments_of_8_def
        issue_8_with_comments_def Let_def)

lemma two_pages_received:
  "pages_received two_page_remote None ''acme'' ''tool'' ''issues'' cache_path True 2 fresh_world
     = Some ([[issue_7_with_comments], [issue_8_with_comments]], world_after_page_2)"
proof -
  have one: "pages_received two_page_remote None ''acme'' ''tool'' ''issues'' cache_path True
               (Suc 0) fresh_world = Some ([[issue_7_with_comments]], world_after_page_1)"
    by (simp add: two_pages_first world_after_page_1_def)
  have "pages_received two_page_remote None ''acme'' ''tool'' ''issues'' cache_path True
               (Suc (Suc 0)) fresh_world
          = Some ([[issue_7_with_comments], [issue_8_with_comments]], world_after_page_2)"
    by (simp only: pages_received.simps(2) [of _ _ _ _ _ _ _ "Suc 0"] one)
       (simp add: two_pages_second world_after_page_2_def)
  then show ?thesis
    by (simp add: numeral_2_eq_2)
qed

text \<open>
  C6 at \<open>two_page_remote\<close>: pages 1 and 2 are fetched with their comments, page 3
  answers 502, and the fetch returns the issue of page 1 followed by the issue of page 2
  after five requests, the last of them the failed one.
\<close>

theorem listing_failure_stops_fetch_witness:
  "fetch_github_data two_page_remote None ''acme'' ''tool'' ''issues'' cache_path True fresh_world
     = Some (Inr (JArr [issue_7_with_comments, issue_8_with_comments]), world_after_failure)
   \<and> log world_after_failure
       = [issues_page 1, comments_of_7, issues_page 2, comments_of_8, issues_page 3]"
proof -
  have no_cache: "files fresh_world cache_path = None"
    by (simp add: fresh_world_def)
  have failed: "two_page_remote (log world_after_page_2)
                  (listing_request None ''acme'' ''tool'' ''issues'' (Suc 2))
     = Inr \<lparr>status_code = 502, response_text = ''Bad Gateway'',
                   json_body = Inl (JSONDecodeError ''Expecting value: line 1 column 1 (char 0)''),
                   rate_limit_remaining = NoRemaining\<rparr>"
    by (simp add: two_page_remote_def listing_request_def)
  have bad: "status_code \<lparr>status_code = 502, response_text = ''Bad Gateway'',
                   json_body = Inl (JSONDecodeError ''Expecting value: line 1 column 1 (char 0)''),
                   rate_limit_remaining = NoRemaining\<rparr> \<noteq> 200"
    by simp
  have after: "world_after_page_2\<lparr>log := log world_after_page_2
            @ [listing_request None ''acme'' ''tool'' ''issues'' (Suc 2)]\<rparr> = world_after_failure"
    by (simp add: world_after_page_2_def world_after_failure_def issues_page_def
          eval_nat_numeral)
  from listing_failure_stops_fetch [OF no_cache two_pages_received failed bad] after
  show ?thesis
    by (simp add: world_after_failure_def)
qed

text \<open>The run against \<open>sample_remote\<close>, whose second page answers 502, unfolded pass by pass.\<close>

lemma sample_partial_fetch:
  "fetch_github_data sample_remote None ''acme'' ''tool'' ''issues'' cache_path True fresh_world
     = Some (Inr (JArr [issue_7_with_comments]), partial_world)"
proof -
  have "fetch_github_data sample_remote None ''acme'' ''tool'' ''issues'' cache_path True fresh_world
          = paging_loop sample_remote None ''acme'' ''tool'' ''issues'' cache_path True 1 []
              fresh_world"
    by (simp add: fetch_github_data_def fresh_world_def)
  also have "\<dots> = paging_loop sample_remote None ''acme'' ''tool'' ''issues'' cache_path True
                      (Suc 1) [issue_7_with_comments] world_after_page_1"
    by (subst paging_loop.simps) (simp add: sample_first_page)
  also have "\<dots> = Some (Inr (JArr [issue_7_with_comments]),
                 world_after_page_1\<lparr>log := log world_after_page_1
                   @ [listing_request None ''acme'' ''tool'' ''issues'' (Suc 1)]\<rparr>)"
    using sample_second_page by (rule paging_loop_failure) simp
  also have "world_after_page_1\<lparr>log := log world_after_page_1
            @ [listing_request None ''acme'' ''tool'' ''issues'' (Suc 1)]\<rparr> = partial_world"
    by (simp add: world_after_page_1_def partial_world_def issues_page_def numeral_2_eq_2)
  finally show ?thesis .
qed

section \<open>Fetching: a file at the cache path\<close>

text \<open>
  C5. When the cache file at \<open>save_path\<close> exists and holds a result set (a JSON array
  of items), the fetch returns exactly that array and leaves the world as it was: the
  request log is unchanged, so no network request is made, whatever the remote would
  have answered.
\<close>

theorem cached_fetch_returns_cache:
  assumes "files w p = Some (Inr (JArr items))"
  shows "fetch_github_data api tok owner repo dt p flag w = Some (Inr (JArr items), w)"
  using assms by (simp add: fetch_github_data_def bind_exc_def)

text \<open>C5 at a world whose cache holds one issue and whose request log is empty.\<close>

theorem cached_fetch_returns_cache_witness:
  "fetch_github_data sample_remote None ''acme'' ''tool'' ''issues'' cache_path True complete_world
     = Some (Inr (JArr [issue_7_with_comments]), complete_world)
   \<and> log complete_world = []"
proof -
  have "files complete_world cache_path = Some (Inr (JArr [issue_7_with_comments]))"
    by (simp add: complete_world_def)
  from cached_fetch_returns_cache [OF this] show ?thesis
    by (simp add: complete_world_def)
qed

text \<open>
  C9 (amended). If any file exists at \<open>save_path\<close>, the fetch makes no network
  request and changes no file. When the file loads as a value with a length (a JSON
  array, as every cache written by a fetch is, complete or partial) the fetch returns
  exactly the loaded value, so a partial fetch is never resumed or completed on a later
  call. When the file does not load, or loads as a value without a length, the fetch
  raises instead of returning.
\<close>

theorem existing_file_short_circuits:
  assumes "files w p = Some f"
  shows "\<exists>out. fetch_github_data api tok owner repo dt p flag w = Some (out, w)
           \<and> (\<forall>v n. f = Inr v \<and> py_len v = Inr n \<longrightarrow> out = Inr v)
           \<and> (\<forall>e. f = Inl e \<longrightarrow> out = Inl e)
           \<and> (\<forall>v e. f = Inr v \<and> py_len v = Inl e \<longrightarrow> out = Inl e)"
  using assms by (auto simp add: fetch_github_data_def bind_exc_def split: sum.splits)

text \<open>
  The amended C9 at the cache a failed run left behind: a first fetch stops at the 502
  of page 2 and leaves page 1 in the cache; a later fetch, against a remote that would
  now answer, returns that partial cache and sends nothing. At a cache file cut off in
  the middle of a write, and at a file holding a JSON number, the fetch raises, again
  without a request.
\<close>

theorem existing_file_short_circuits_witness:
  "fetch_github_data sample_remote None ''acme'' ''tool'' ''issues'' cache_path True fresh_world
     = Some (Inr (JArr [issue_7_with_comments]), partial_world)
   \<and> fetch_github_data empty_remote None ''acme'' ''tool'' ''issues'' cache_path True partial_world
     = Some (Inr (JArr [issue_7_with_comments]), partial_world)
   \<and> fetch_github_data empty_remote None ''acme'' ''tool'' ''issues'' cache_path True
       truncated_world
     = Some (Inl (JSONDecodeError ''Expecting value: line 9 column 5 (char 120)''),
             truncated_world)
   \<and> (\<exists>e. fetch_github_data empty_remote None ''acme'' ''tool'' ''issues'' cache_path True
             number_world = Some (Inl e, number_world))"
proof -
  have first: "fetch_github_data sample_remote None ''acme'' ''tool'' ''issues'' cache_path True
                 fresh_world = Some (Inr (JArr [issue_7_with_comments]), partial_world)"
    by (rule sample_partial_fetch)
  have cached: "files partial_world cache_path = Some (Inr (JArr [issue_7_with_comments]))"
    by (simp add: partial_world_def)
  have len: "py_len (JArr [issue_7_with_comments]) = Inr 1"
    by simp
  from existing_file_short_circuits [OF cached, of empty_remote None "''acme''" "''tool''"
         "''issues''" True] len
  have second: "fetch_github_data empty_remote None ''acme'' ''tool'' ''issues'' cache_path True
                  partial_world = Some (Inr (JArr [issue_7_with_comments]), partial_world)"
    by auto
  have cut: "files truncated_world cache_path
               = Some (Inl (JSONDecodeError ''Expecting value: line 9 column 5 (char 120)''))"
    by (simp add: truncated_world_def)
  from existing_file_short_circuits [OF cut, of empty_remote None "''acme''" "''tool''"
         "''issues''" True]
  have third: "fetch_github_data empty_remote None ''acme'' ''tool'' ''issues'' cache_path True
                 truncated_world
               = Some (Inl (JSONDecodeError ''Expecting value: line 9 column 5 (char 120)''),
                       truncated_world)"
    by auto
  have number: "files number_world cache_path = Some (Inr (JInt 5))"
    by (simp add: number_world_def)
  have no_len: "py_len (JInt 5)
                  = Inl (TypeError (''object of type '' @ [CHR 0x27] @ py_type_name (JInt 5)
                                      @ [CHR 0x27] @ '' has no len()''))"
    by simp
  from existing_file_short_circuits [OF number, of empty_remote None "''acme''" "''tool''"
         "''issues''" True] no_len
  have fourth: "\<exists>e. fetch_github_data empty_remote None ''acme'' ''tool'' ''issues'' cache_path
                       True number_world = Some (Inl e, number_world)"
    by auto
  from first second third fourth show ?thesis
    by simp
qed

text \<open>
  C9, as stated, fails for a file that does not load. A cache file cut off in the
  middle of a write exists, \<open>json.load\<close> raises on it, and the fetch raises that
  exception instead of returning a parsed content.
\<close>

theorem existing_file_counterexample:
  "files truncated_world cache_path
     = Some (Inl (JSONDecodeError ''Expecting value: line 9 column 5 (char 120)''))
   \<and> fetch_github_data sample_remote None ''acme'' ''tool'' ''issues'' cache_path True
       truncated_world
     = Some (Inl (JSONDecodeError ''Expecting value: line 9 column 5 (char 120)''),
             truncated_world)"
  by (simp add: fetch_github_data_def truncated_world_def bind_exc_def)

section \<open>Rendering: the caps on comments\<close>

lemma map_of_update_key:
  "map_of (map (\<lambda>kv. if fst kv = K then (fst kv, f (snd kv)) else kv) kvs) k
     = (if k = K then map_option f (map_of kvs K) else map_of kvs k)"
  by (induction kvs) auto

lemma py_slice_cut_body: "py_slice 500 (cut_body v) = py_slice 500 v"
  by (cases v) simp_all

lemma py_get_capped_comment_other:
  "k \<noteq> ''body'' \<Longrightarrow> py_get (capped_comment c) k d = py_get c k d"
  by (cases c) (simp_all add: map_of_update_key)

lemma py_get_capped_comment_body:
  "bind_exc (py_get (capped_comment c) ''body'' (JStr ''No content'')) (py_slice 500)
     = bind_exc (py_get c ''body'' (JStr ''No content'')) (py_slice 500)"
  by (cases c) (simp_all add: map_of_update_key bind_exc_def py_slice_cut_body split: option.splits)

lemma render_comment_alt:
  "render_comment comment =
     bind_exc (py_get comment ''user'' (JObj [])) (\<lambda>user.
     bind_exc (py_get user ''login'' (JStr ''unknown'')) (\<lambda>login.
     bind_exc (py_get comment ''created_at'' (JStr ''unknown'')) (\<lambda>created_at.
     bind_exc (bind_exc (py_get comment ''body'' (JStr ''No content'')) (py_slice 500)) (\<lambda>body500.
       Inr (''    <comment>\<newline>      <author>'' @ py_str login @ ''</author>\<newline>''
            @ ''      <created_at>'' @ py_str created_at @ ''</created_at>\<newline>''
            @ ''      <body>'' @ py_str body500 @ ''</body>\<newline>''
            @ ''    </comment>\<newline>'')))))"
  by (simp add: render_comment_def bind_exc_def split: sum.splits)

lemma render_capped_comment: "render_comment (capped_comment c) = render_comment c"
  unfolding render_comment_alt
  by (simp add: py_get_capped_comment_other py_get_capped_comment_body)

lemma comments_loop_capped:
  "comments_loop (map capped_comment cs) acc = comments_loop cs acc"
  by (induction cs arbitrary: acc) (simp_all add: render_capped_comment)

text \<open>The loop appends the blocks of the comments, in order, to what it started from.\<close>

lemma comments_loop_blocks:
  "comments_loop cs acc =
     bind_exc (map_exc render_comment cs) (\<lambda>blocks. Inr (acc @ concat blocks))"
  by (induction cs arbitrary: acc) (simp_all add: bind_exc_def split: sum.splits)

lemma map_exc_length: "map_exc f xs = Inr ys \<Longrightarrow> length ys = length xs"
  by (induction xs arbitrary: ys) (auto simp add: bind_exc_def split: sum.splits)

lemma truthy_cut_comments: "truthy (cut_comments v) = truthy v"
  by (cases v) simp_all

lemma comments_tail_cut:
  "bind_exc (py_slice 10 (cut_comments v)) (\<lambda>first10.
     bind_exc (py_iter first10) (\<lambda>cs. comments_loop cs acc))
   = bind_exc (py_slice 10 v) (\<lambda>first10.
     bind_exc (py_iter first10) (\<lambda>cs. comments_loop cs acc))"
  by (cases v) (simp_all add: bind_exc_def comments_loop_capped)

lemma comments_xml_of_alt:
  "comments_xml_of item =
     bind_exc (py_contains ''comments'' item) (\<lambda>present.
       if \<not> present then Inr []
       else bind_exc (py_getitem item ''comments'') (\<lambda>comments.
         if \<not> truthy comments then Inr []
         else bind_exc
                (bind_exc (py_slice 10 comments) (\<lambda>first10.
                 bind_exc (py_iter first10) (\<lambda>cs.
                   comments_loop cs ''\<newline>  <comments>\<newline>'')))
                (\<lambda>xml. Inr (xml @ ''  </comments>''))))"
  by (simp add: comments_xml_of_def bind_exc_def split: sum.splits)

lemma comments_xml_of_capped: "comments_xml_of (capped_item item) = comments_xml_of item"
proof (cases item)
  case (JObj kvs)
  show ?thesis
    unfolding comments_xml_of_alt JObj
    by (simp add: map_of_update_key bind_exc_def truthy_cut_comments
          comments_tail_cut [unfolded bind_exc_def] split: option.splits)
qed simp_all

lemma py_get_capped_item:
  "k \<noteq> ''comments'' \<Longrightarrow> py_get (capped_item item) k d = py_get item k d"
  by (cases item) (simp_all add: map_of_update_key)

lemma py_contains_capped_item:
  "py_contains k (capped_item item) = py_contains k item"
  by (cases item) (simp_all add: map_of_update_key)

lemma labels_text_capped: "labels_text (capped_item item) = labels_text item"
  by (simp add: labels_text_def py_get_capped_item)

lemma format_pr_capped: "format_pr_as_xml (capped_item pr) = format_pr_as_xml pr"
  by (simp add: format_pr_as_xml_def comments_xml_of_capped py_get_capped_item)

lemma format_issue_capped: "format_issue_as_xml (capped_item issue) = format_issue_as_xml issue"
  by (simp add: format_issue_as_xml_def comments_xml_of_capped py_get_capped_item
        py_contains_capped_item labels_text_capped cong del: if_weak_cong)

lemma comments_xml_blocks:
  assumes "py_getitem item ''comments'' = Inr (JArr cs)" and "cs \<noteq> []"
    and "comments_xml_of item = Inr xml"
  shows "\<exists>blocks. map_exc render_comment (take 10 cs) = Inr blocks
           \<and> length blocks = min 10 (length cs)
           \<and> xml = ''\<newline>  <comments>\<newline>'' @ concat blocks @ ''  </comments>''"
proof -
  from assms(1) obtain kvs where item: "item = JObj kvs" and v: "map_of kvs ''comments'' = Some (JArr cs)"
    by (cases item) (auto split: option.splits)
  from assms(3) have "bind_exc (comments_loop (take 10 cs) ''\<newline>  <comments>\<newline>'')
                        (\<lambda>xml. Inr (xml @ ''  </comments>'')) = Inr xml"
    using assms(2) by (simp add: comments_xml_of_def item v bind_exc_def)
  then obtain blocks where b: "map_exc render_comment (take 10 cs) = Inr blocks"
    and x: "xml = ''\<newline>  <comments>\<newline>'' @ concat blocks @ ''  </comments>''"
    by (auto simp add: comments_loop_blocks bind_exc_def split: sum.splits)
  from map_exc_length [OF b] have "length blocks = min 10 (length cs)"
    by simp
  with b x show ?thesis by blast
qed

subsection \<open>Where the comments part stands in the rendering\<close>

lemma bind_exc_Inr: "bind_exc m f = Inr y \<longleftrightarrow> (\<exists>x. m = Inr x \<and> f x = Inr y)"
  by (cases m) (simp_all add: bind_exc_def)

lemma map_of_filter_key:
  "map_of (filter (\<lambda>kv. fst kv \<noteq> K) kvs) k = (if k = K then None else map_of kvs k)"
  by (induction kvs) auto

lemma py_get_without_comments:
  "k \<noteq> ''comments'' \<Longrightarrow> py_get (without_comments item) k d = py_get item k d"
  by (cases item) (simp_all add: map_of_filter_key)

lemma py_contains_without_comments:
  "k \<noteq> ''comments'' \<Longrightarrow> py_contains k (without_comments item) = py_contains k item"
  by (cases item) (simp_all add: map_of_filter_key)

lemma comments_xml_without_comments:
  "comments_xml_of (without_comments (JObj kvs)) = Inr []"
  by (simp add: comments_xml_of_def bind_exc_def map_of_filter_key)

lemma labels_text_without_comments:
  "labels_text (without_comments item) = labels_text item"
  by (simp add: labels_text_def py_get_without_comments)

text \<open>
  The rendering of a pull request with comments is the rendering of the same item
  without its comments, with the comments part put once before the closing line.
\<close>

lemma format_pr_with_comments:
  assumes "format_pr_as_xml item = Inr s"
    and "py_getitem item ''comments'' = Inr (JArr cs)" and "cs \<noteq> []"
  shows "\<exists>h blocks.
           format_pr_as_xml (without_comments item) = Inr (h @ ''\<newline></pull_request>'')
           \<and> map_exc render_comment (take 10 cs) = Inr blocks
           \<and> length blocks = min 10 (length cs)
           \<and> s = h @ ''\<newline>  <comments>\<newline>'' @ concat blocks @ ''  </comments>''
                    @ ''\<newline></pull_request>''"
proof -
  from assms(2) obtain kvs where item: "item = JObj kvs"
    by (cases item) simp_all
  from assms(1) obtain xml number title state user login created updated merged body where
    xml: "comments_xml_of item = Inr xml" and
    f1: "py_get item ''number'' (JStr ''N/A'') = Inr number" and
    f2: "py_get item ''title'' (JStr ''No title'') = Inr title" and
    f3: "py_get item ''state'' (JStr ''unknown'') = Inr state" and
    f4: "py_get item ''user'' (JObj []) = Inr user" and
    f5: "py_get user ''login'' (JStr ''unknown'') = Inr login" and
    f6: "py_get item ''created_at'' (JStr ''unknown'') = Inr created" and
    f7: "py_get item ''updated_at'' (JStr ''unknown'') = Inr updated" and
    f8: "py_get item ''merged'' (JBool False) = Inr merged" and
    f9: "py_get item ''body'' (JStr ''No description'') = Inr body" and
    s: "s = ''<pull_request number='' @ [CHR 0x22] @ py_str number @ [CHR 0x22] @ ''>\<newline>''
            @ ''  <title>'' @ py_str title @ ''</title>\<newline>''
            @ ''  <state>'' @ py_str state @ ''</state>\<newline>''
            @ ''  <author>'' @ py_str login @ ''</author>\<newline>''
            @ ''  <created_at>'' @ py_str created @ ''</created_at>\<newline>''
            @ ''  <updated_at>'' @ py_str updated @ ''</updated_at>\<newline>''
            @ ''  <merged>'' @ py_str merged @ ''</merged>\<newline>''
            @ ''  <body>'' @ py_str body @ ''</body>'' @ xml @ ''\<newline>''
            @ ''</pull_request>''"
    unfolding format_pr_as_xml_def bind_exc_Inr by blast
  let ?h = "''<pull_request number='' @ [CHR 0x22] @ py_str number @ [CHR 0x22] @ ''>\<newline>''
            @ ''  <title>'' @ py_str title @ ''</title>\<newline>''
            @ ''  <state>'' @ py_str state @ ''</state>\<newline>''
            @ ''  <author>'' @ py_str login @ ''</author>\<newline>''
            @ ''  <created_at>'' @ py_str created @ ''</created_at>\<newline>''
            @ ''  <updated_at>'' @ py_str updated @ ''</updated_at>\<newline>''
            @ ''  <merged>'' @ py_str merged @ ''</merged>\<newline>''
            @ ''  <body>'' @ py_str body @ ''</body>''"
  have none: "comments_xml_of (without_comments item) = Inr []"
    unfolding item by (rule comments_xml_without_comments)
  have bare: "format_pr_as_xml (without_comments item) = Inr (?h @ ''\<newline></pull_request>'')"
    unfolding format_pr_as_xml_def
    by (simp add: py_get_without_comments none f1 f2 f3 f4 f5 f6 f7 f8 f9 bind_exc_def)
  from comments_xml_blocks [OF assms(2,3) xml] obtain blocks where
    b: "map_exc render_comment (take 10 cs) = Inr blocks" and
    n: "length blocks = min 10 (length cs)" and
    x: "xml = ''\<newline>  <comments>\<newline>'' @ concat blocks @ ''  </comments>''"
    by blast
  have "s = ?h @ ''\<newline>  <comments>\<newline>'' @ concat blocks @ ''  </comments>''
              @ ''\<newline></pull_request>''"
    by (simp add: s x)
  with bare b n show ?thesis by blast
qed


text \<open>The same for an issue that is not a pull request.\<close>

lemma format_issue_with_comments:
  assumes "format_issue_as_xml item = Inr s"
    and "py_contains ''pull_request'' item = Inr False"
    and "py_getitem item ''comments'' = Inr (JArr cs)" and "cs \<noteq> []"
  shows "\<exists>h blocks.
           format_issue_as_xml (without_comments item) = Inr (h @ ''\<newline></issue>'')
           \<and> map_exc render_comment (take 10 cs) = Inr blocks
           \<and> length blocks = min 10 (length cs)
           \<and> s = h @ ''\<newline>  <comments>\<newline>'' @ concat blocks @ ''  </comments>''
                    @ ''\<newline></issue>''"
proof -
  from assms(3) obtain kvs where item: "item = JObj kvs"
    by (cases item) simp_all
  from assms(1,2) have
    "bind_exc (comments_xml_of item) (\<lambda>comments_xml.
     bind_exc (py_get item ''number'' (JStr ''N/A'')) (\<lambda>number.
     bind_exc (py_get item ''title'' (JStr ''No title'')) (\<lambda>title.
     bind_exc (py_get item ''state'' (JStr ''unknown'')) (\<lambda>state.
     bind_exc (py_get item ''user'' (JObj [])) (\<lambda>user.
     bind_exc (py_get user ''login'' (JStr ''unknown'')) (\<lambda>login.
     bind_exc (py_get item ''created_at'' (JStr ''unknown'')) (\<lambda>created_at.
     bind_exc (py_get item ''updated_at'' (JStr ''unknown'')) (\<lambda>updated_at.
     bind_exc (labels_text item) (\<lambda>labels.
     bind_exc (py_get item ''body'' (JStr ''No description'')) (\<lambda>body.
       Inr (''<issue number='' @ [CHR 0x22] @ py_str number @ [CHR 0x22] @ ''>\<newline>''
            @ ''  <title>'' @ py_str title @ ''</title>\<newline>''
            @ ''  <state>'' @ py_str state @ ''</state>\<newline>''
            @ ''  <author>'' @ py_str login @ ''</author>\<newline>''
            @ ''  <created_at>'' @ py_str created_at @ ''</created_at>\<newline>''
            @ ''  <updated_at>'' @ py_str updated_at @ ''</updated_at>\<newline>''
            @ ''  <labels>'' @ labels @ ''</labels>\<newline>''
            @ ''  <body>'' @ py_str body @ ''</body>'' @ comments_xml @ ''\<newline>''
            @ ''</issue>''))))))))))) = Inr s"
    unfolding format_issue_as_xml_def by (simp add: bind_exc_def)
  then obtain xml number title state user login created updated labels body where
    xml: "comments_xml_of item = Inr xml" and
    f1: "py_get item ''number'' (JStr ''N/A'') = Inr number" and
    f2: "py_get item ''title'' (JStr ''No title'') = Inr title" and
    f3: "py_get item ''state'' (JStr ''unknown'') = Inr state" and
    f4: "py_get item ''user'' (JObj []) = Inr user" and
    f5: "py_get user ''login'' (JStr ''unknown'') = Inr login" and
    f6: "py_get item ''created_at'' (JStr ''unknown'') = Inr created" and
    f7: "py_get item ''updated_at'' (JStr ''unknown'') = Inr updated" and
    f8: "labels_text item = Inr labels" and
    f9: "py_get item ''body'' (JStr ''No description'') = Inr body" and
    s: "s = ''<issue number='' @ [CHR 0x22] @ py_str number @ [CHR 0x22] @ ''>\<newline>''
            @ ''  <title>'' @ py_str title @ ''</title>\<newline>''
            @ ''  <state>'' @ py_str state @ ''</state>\<newline>''
            @ ''  <author>'' @ py_str login @ ''</author>\<newline>''
            @ ''  <created_at>'' @ py_str created @ ''</created_at>\<newline>''
            @ ''  <updated_at>'' @ py_str updated @ ''</updated_at>\<newline>''
            @ ''  <labels>'' @ labels @ ''</labels>\<newline>''
            @ ''  <body>'' @ py_str body @ ''</body>'' @ xml @ ''\<newline>''
            @ ''</issue>''"
    unfolding bind_exc_Inr by blast
  let ?h = "''<issue number='' @ [CHR 0x22] @ py_str number @ [CHR 0x22] @ ''>\<newline>''
            @ ''  <title>'' @ py_str title @ ''</title>\<newline>''
            @ ''  <state>'' @ py_str state @ ''</state>\<newline>''
            @ ''  <author>'' @ py_str login @ ''</author>\<newline>''
            @ ''  <created_at>'' @ py_str created @ ''</created_at>\<newline>''
            @ ''  <updated_at>'' @ py_str updated @ ''</updated_at>\<newline>''
            @ ''  <labels>'' @ labels @ ''</labels>\<newline>''
            @ ''  <body>'' @ py_str body @ ''</body>''"
  have none: "comments_xml_of (without_comments item) = Inr []"
    unfolding item by (rule comments_xml_without_comments)
  have bare: "format_issue_as_xml (without_comments item) = Inr (?h @ ''\<newline></issue>'')"
    unfolding format_issue_as_xml_def
    by (simp add: py_get_without_comments py_contains_without_comments
          labels_text_without_comments assms(2) none f1 f2 f3 f4 f5 f6 f7 f8 f9 bind_exc_def)
  from comments_xml_blocks [OF assms(3,4) xml] obtain blocks where
    b: "map_exc render_comment (take 10 cs) = Inr blocks" and
    n: "length blocks = min 10 (length cs)" and
    x: "xml = ''\<newline>  <comments>\<newline>'' @ concat blocks @ ''  </comments>''"
    by blast
  have "s = ?h @ ''\<newline>  <comments>\<newline>'' @ concat blocks @ ''  </comments>''
              @ ''\<newline></issue>''"
    by (simp add: s x)
  with bare b n show ?thesis by blast
qed

lemma format_issue_pull_request:
  "py_contains ''pull_request'' item = Inr True \<Longrightarrow> format_issue_as_xml item = Inr []"
  by (simp add: format_issue_as_xml_def bind_exc_def)

lemma render_comment_text:
  assumes "py_get c ''user'' (JObj []) = Inr user"
    and "py_get user ''login'' (JStr ''unknown'') = Inr login"
    and "py_get c ''created_at'' (JStr ''unknown'') = Inr created"
    and "py_get c ''body'' (JStr ''No content'') = Inr (JStr t)"
  shows "render_comment c
           = Inr (''    <comment>\<newline>      <author>'' @ py_str login @ ''</author>\<newline>''
                  @ ''      <created_at>'' @ py_str created @ ''</created_at>\<newline>''
                  @ ''      <body>'' @ take 500 t @ ''</body>\<newline>''
                  @ ''    </comment>\<newline>'')"
  using assms by (simp add: render_comment_def bind_exc_def)

text \<open>
  C7. For every input item, however many comments it has and however long their
  bodies are, both renderings (pull request and issue) give the same result for the
  item as for the item cut to its first 10 comments and to the first 500 characters of
  each comment body: nothing beyond the caps reaches the context block. When the item
  has a non-empty comment list, what a renderer returns is what it returns for the item
  without its comments, with one comments part put before the closing line: the opening
  line, one block per comment of the first 10 and no more, in order, and the closing
  line. An item of the issues listing that is a pull request renders as the empty text.
  The block of a comment whose body is a text is the author, the creation time and,
  between the \<open>body\<close> tags, the first 500 characters of that text.
\<close>

theorem rendering_caps:
  "format_pr_as_xml (capped_item item) = format_pr_as_xml item
   \<and> format_issue_as_xml (capped_item item) = format_issue_as_xml item
   \<and> (format_pr_as_xml item = Inr s \<and> py_getitem item ''comments'' = Inr (JArr cs) \<and> cs \<noteq> []
        \<longrightarrow> (\<exists>h blocks.
               format_pr_as_xml (without_comments item) = Inr (h @ ''\<newline></pull_request>'')
               \<and> map_exc render_comment (take 10 cs) = Inr blocks
               \<and> length blocks = min 10 (length cs)
               \<and> s = h @ ''\<newline>  <comments>\<newline>'' @ concat blocks @ ''  </comments>''
                        @ ''\<newline></pull_request>''))
   \<and> (format_issue_as_xml item = Inr s' \<and> py_contains ''pull_request'' item = Inr False
        \<and> py_getitem item ''comments'' = Inr (JArr cs) \<and> cs \<noteq> []
        \<longrightarrow> (\<exists>h blocks.
               format_issue_as_xml (without_comments item) = Inr (h @ ''\<newline></issue>'')
               \<and> map_exc render_comment (take 10 cs) = Inr blocks
               \<and> length blocks = min 10 (length cs)
               \<and> s' = h @ ''\<newline>  <comments>\<newline>'' @ concat blocks @ ''  </comments>''
                         @ ''\<newline></issue>''))
   \<and> (py_contains ''pull_request'' item = Inr True \<longrightarrow> format_issue_as_xml item = Inr [])
   \<and> (py_get c ''user'' (JObj []) = Inr user \<and> py_get user ''login'' (JStr ''unknown'') = Inr login
        \<and> py_get c ''created_at'' (JStr ''unknown'') = Inr created
        \<and> py_get c ''body'' (JStr ''No content'') = Inr (JStr t)
        \<longrightarrow> render_comment c
              = Inr (''    <comment>\<newline>      <author>'' @ py_str login @ ''</author>\<newline>''
                     @ ''      <created_at>'' @ py_str created @ ''</created_at>\<newline>''
                     @ ''      <body>'' @ take 500 t @ ''</body>\<newline>''
                     @ ''    </comment>\<newline>''))"
proof (intro conjI impI)
  show "format_pr_as_xml (capped_item item) = format_pr_as_xml item"
    by (rule format_pr_capped)
  show "format_issue_as_xml (capped_item item) = format_issue_as_xml item"
    by (rule format_issue_capped)
  show "\<exists>h blocks.
               format_pr_as_xml (without_comments item) = Inr (h @ ''\<newline></pull_request>'')
               \<and> map_exc render_comment (take 10 cs) = Inr blocks
               \<and> length blocks = min 10 (length cs)
               \<and> s = h @ ''\<newline>  <comments>\<newline>'' @ concat blocks @ ''  </comments>''
                        @ ''\<newline></pull_request>''"
    if "format_pr_as_xml item = Inr s \<and> py_getitem item ''comments'' = Inr (JArr cs) \<and> cs \<noteq> []"
    using that format_pr_with_comments by blast
  show "\<exists>h blocks.
               format_issue_as_xml (without_comments item) = Inr (h @ ''\<newline></issue>'')
               \<and> map_exc render_comment (take 10 cs) = Inr blocks
               \<and> length blocks = min 10 (length cs)
               \<and> s' = h @ ''\<newline>  <comments>\<newline>'' @ concat blocks @ ''  </comments>''
                         @ ''\<newline></issue>''"
    if "format_issue_as_xml item = Inr s' \<and> py_contains ''pull_request'' item = Inr False
        \<and> py_getitem item ''comments'' = Inr (JArr cs) \<and> cs \<noteq> []"
    using that format_issue_with_comments by blast
  show "format_issue_as_xml item = Inr []" if "py_contains ''pull_request'' item = Inr True"
    using that by (rule format_issue_pull_request)
  show "render_comment c
              = Inr (''    <comment>\<newline>      <author>'' @ py_str login @ ''</author>\<newline>''
                     @ ''      <created_at>'' @ py_str created @ ''</created_at>\<newline>''
                     @ ''      <body>'' @ take 500 t @ ''</body>\<newline>''
                     @ ''    </comment>\<newline>'')"
    if "py_get c ''user'' (JObj []) = Inr user \<and> py_get user ''login'' (JStr ''unknown'') = Inr login
        \<and> py_get c ''created_at'' (JStr ''unknown'') = Inr created
        \<and> py_get c ''body'' (JStr ''No content'') = Inr (JStr t)"
    using that render_comment_text by blast
qed


text \<open>The sample pull request: 12 comments, each with a body of 600 characters.\<close>

lemma map_exc_replicate:
  "f x = Inr y \<Longrightarrow> map_exc f (replicate n x) = Inr (replicate n y)"
  by (induction n) (simp_all add: bind_exc_def)

lemma render_long_comment: "render_comment long_comment = Inr long_comment_block"
  by (simp add: render_comment_def bind_exc_def long_comment_def long_comment_block_def)

lemma render_long_comments:
  "map_exc render_comment (replicate n long_comment) = Inr (replicate n long_comment_block)"
  using render_long_comment by (rule map_exc_replicate)

lemma comments_xml_busy_pr:
  "comments_xml_of busy_pr
     = Inr (''\<newline>  <comments>\<newline>'' @ concat (replicate 10 long_comment_block)
            @ ''  </comments>'')"
  by (simp add: comments_xml_of_def busy_pr_def bind_exc_def comments_loop_blocks
        render_long_comments)

lemma format_pr_busy_pr:
  "format_pr_as_xml busy_pr
     = Inr (busy_pr_head @ ''\<newline>  <comments>\<newline>''
            @ concat (replicate 10 long_comment_block) @ ''  </comments>''
            @ ''\<newline></pull_request>'')"
  unfolding format_pr_as_xml_def comments_xml_busy_pr
  by (simp add: busy_pr_def busy_pr_head_def bind_exc_def str_int_def)

lemma format_issue_busy_pr:
  "format_issue_as_xml busy_pr
     = Inr (busy_issue_head @ ''\<newline>  <comments>\<newline>''
            @ concat (replicate 10 long_comment_block) @ ''  </comments>''
            @ ''\<newline></issue>'')"
  unfolding format_issue_as_xml_def comments_xml_busy_pr
  by (simp add: busy_pr_def busy_issue_head_def bind_exc_def str_int_def labels_text_def)

text \<open>
  C7 at the sample pull request, as a pull request and as an issue: after the head,
  10 blocks are rendered, once, each with 500 characters of body.
\<close>

theorem rendering_caps_witness:
  "format_pr_as_xml busy_pr
     = Inr (busy_pr_head @ ''\<newline>  <comments>\<newline>''
            @ concat (replicate 10 long_comment_block) @ ''  </comments>''
            @ ''\<newline></pull_request>'')
   \<and> format_issue_as_xml busy_pr
     = Inr (busy_issue_head @ ''\<newline>  <comments>\<newline>''
            @ concat (replicate 10 long_comment_block) @ ''  </comments>''
            @ ''\<newline></issue>'')
   \<and> (\<exists>h blocks.
         format_pr_as_xml (without_comments busy_pr) = Inr (h @ ''\<newline></pull_request>'')
         \<and> map_exc render_comment (take 10 (replicate 12 long_comment)) = Inr blocks
         \<and> length blocks = 10
         \<and> busy_pr_head @ ''\<newline>  <comments>\<newline>''
             @ concat (replicate 10 long_comment_block) @ ''  </comments>''
             @ ''\<newline></pull_request>''
           = h @ ''\<newline>  <comments>\<newline>'' @ concat blocks @ ''  </comments>''
               @ ''\<newline></pull_request>'')
   \<and> (\<exists>h blocks.
         format_issue_as_xml (without_comments busy_pr) = Inr (h @ ''\<newline></issue>'')
         \<and> map_exc render_comment (take 10 (replicate 12 long_comment)) = Inr blocks
         \<and> length blocks = 10
         \<and> busy_issue_head @ ''\<newline>  <comments>\<newline>''
             @ concat (replicate 10 long_comment_block) @ ''  </comments>''
             @ ''\<newline></issue>''
           = h @ ''\<newline>  <comments>\<newline>'' @ concat blocks @ ''  </comments>''
               @ ''\<newline></issue>'')
   \<and> format_issue_as_xml pr_among_issues = Inr []
   \<and> render_comment long_comment = Inr long_comment_block
   \<and> format_pr_as_xml (capped_item busy_pr) = format_pr_as_xml busy_pr
   \<and> format_issue_as_xml (capped_item busy_pr) = format_issue_as_xml busy_pr"
proof -
  have h1: "py_getitem busy_pr ''comments'' = Inr (JArr (replicate 12 long_comment))"
    by (simp add: busy_pr_def)
  have h2: "replicate 12 long_comment \<noteq> []"
    by simp
  have h3: "py_contains ''pull_request'' busy_pr = Inr False"
    by (simp add: busy_pr_def)
  have h4: "py_contains ''pull_request'' pr_among_issues = Inr True"
    by (simp add: pr_among_issues_def)
  have h5: "py_get long_comment ''user'' (JObj []) = Inr (JObj [(''login'', JStr ''ann'')])"
    and h6: "py_get (JObj [(''login'', JStr ''ann'')]) ''login'' (JStr ''unknown'')
               = Inr (JStr ''ann'')"
    and h7: "py_get long_comment ''created_at'' (JStr ''unknown'')
               = Inr (JStr ''2024-05-01T10:00:00Z'')"
    and h8: "py_get long_comment ''body'' (JStr ''No content'')
               = Inr (JStr (replicate 600 CHR ''x''))"
    by (simp_all add: long_comment_def)
  note caps = rendering_caps [where item = busy_pr and cs = "replicate 12 long_comment"
      and s = "busy_pr_head @ ''\<newline>  <comments>\<newline>''
            @ concat (replicate 10 long_comment_block) @ ''  </comments>''
            @ ''\<newline></pull_request>''"
      and s' = "busy_issue_head @ ''\<newline>  <comments>\<newline>''
            @ concat (replicate 10 long_comment_block) @ ''  </comments>''
            @ ''\<newline></issue>''"
      and c = long_comment and user = "JObj [(''login'', JStr ''ann'')]"
      and login = "JStr ''ann''" and created = "JStr ''2024-05-01T10:00:00Z''"
      and t = "replicate 600 CHR ''x''"]
  from caps have a: "format_pr_as_xml (capped_item busy_pr) = format_pr_as_xml busy_pr"
    and b: "format_issue_as_xml (capped_item busy_pr) = format_issue_as_xml busy_pr"
    by blast+
  from caps format_pr_busy_pr h1 h2
  have c: "\<exists>h blocks.
         format_pr_as_xml (without_comments busy_pr) = Inr (h @ ''\<newline></pull_request>'')
         \<and> map_exc render_comment (take 10 (replicate 12 long_comment)) = Inr blocks
         \<and> length blocks = min 10 (length (replicate 12 long_comment))
         \<and> busy_pr_head @ ''\<newline>  <comments>\<newline>''
             @ concat (replicate 10 long_comment_block) @ ''  </comments>''
             @ ''\<newline></pull_request>''
           = h @ ''\<newline>  <comments>\<newline>'' @ concat blocks @ ''  </comments>''
               @ ''\<newline></pull_request>''"
    by blast
  from caps format_issue_busy_pr h1 h2 h3
  have d: "\<exists>h blocks.
         format_issue_as_xml (without_comments busy_pr) = Inr (h @ ''\<newline></issue>'')
         \<and> map_exc render_comment (take 10 (replicate 12 long_comment)) = Inr blocks
         \<and> length blocks = min 10 (length (replicate 12 long_comment))
         \<and> busy_issue_head @ ''\<newline>  <comments>\<newline>''
             @ concat (replicate 10 long_comment_block) @ ''  </comments>''
             @ ''\<newline></issue>''
           = h @ ''\<newline>  <comments>\<newline>'' @ concat blocks @ ''  </comments>''
               @ ''\<newline></issue>''"
    by blast
  from rendering_caps [where item = pr_among_issues] h4
  have e: "format_issue_as_xml pr_among_issues = Inr []"
    by blast
  from caps h5 h6 h7 h8
  have "render_comment long_comment
          = Inr (''    <comment>\<newline>      <author>'' @ py_str (JStr ''ann'') @ ''</author>\<newline>''
                 @ ''      <created_at>'' @ py_str (JStr ''2024-05-01T10:00:00Z'') @ ''</created_at>\<newline>''
                 @ ''      <body>'' @ take 500 (replicate 600 CHR ''x'') @ ''</body>\<newline>''
                 @ ''    </comment>\<newline>'')"
    by blast
  then have f: "render_comment long_comment = Inr long_comment_block"
    by (simp add: long_comment_block_def)
  have n: "min 10 (length (replicate 12 long_comment)) = 10"
    by simp
  from c d show ?thesis
    unfolding n using format_pr_busy_pr format_issue_busy_pr e f a b by blast
qed

end
